theory Spec2Isabelle
  imports Main "HOL-Library.Word"
begin

unbundle bit_operations_syntax

section \<open>Data model\<close>

text \<open>
  A \<open>uuid.UUID\<close> is a \<open>[16]byte\<close>: 128 bits. Go's \<open>int\<close> and \<open>int64\<close> are 64-bit
  two's complement words. A \<open>time.Time\<close> is an instant, counted in clock units.
\<close>

type_synonym uuid = "128 word"
type_synonym int64 = "64 word"

record User =
  ID :: uuid
  FirstName :: string
  LastName :: string
  Nickname :: string
  Password :: string
  Email :: string
  Country :: string
  CreatedAt :: int
  UpdatedAt :: int

record Filter =
  Field :: string
  Value :: string

record ListParams =
  Limit :: int64
  Offset :: int64
  Filters :: "Filter list"
  OrderBy :: string
  OrderDesc :: bool

subsection \<open>Errors\<close>

text \<open>
  The sentinel errors of \<open>errors.go\<close>, the sentinels of the client libraries
  (\<open>sql.ErrNoRows\<close>, \<open>redis.Nil\<close>), opaque errors raised by a client library with their
  message, and \<open>Errorf p e\<close> for \<open>fmt.Errorf(p + ": %w", e)\<close>.
\<close>

datatype err =
    ErrNotFound
  | ErrAlreadyExists
  | ErrInvalidInput
  | ErrEmailTaken
  | ErrNicknameTaken
  | ErrValidation
  | sql_ErrNoRows
  | redis_Nil
  | PgError string
  | RedisError string
  | KafkaError string
  | BcryptError string
  | JsonError string
  | Errorf string err

fun Error :: "err \<Rightarrow> string" where
  "Error ErrNotFound = ''user not found''"
| "Error ErrAlreadyExists = ''user already exists''"
| "Error ErrInvalidInput = ''invalid input''"
| "Error ErrEmailTaken = ''email is already taken''"
| "Error ErrNicknameTaken = ''nickname is already taken''"
| "Error ErrValidation = ''validation error''"
| "Error sql_ErrNoRows = ''sql: no rows in result set''"
| "Error redis_Nil = ''redis: nil''"
| "Error (PgError m) = m"
| "Error (RedisError m) = m"
| "Error (KafkaError m) = m"
| "Error (BcryptError m) = m"
| "Error (JsonError m) = m"
| "Error (Errorf p e) = p @ '': '' @ Error e"

fun errors_Is :: "err \<Rightarrow> err \<Rightarrow> bool" where
  "errors_Is (Errorf p e) t = (Errorf p e = t \<or> errors_Is e t)"
| "errors_Is e t = (e = t)"

subsection \<open>Strings\<close>

fun strings_HasPrefix :: "string \<Rightarrow> string \<Rightarrow> bool" where
  "strings_HasPrefix s [] = True"
| "strings_HasPrefix [] (p # ps) = False"
| "strings_HasPrefix (c # s) (p # ps) = (c = p \<and> strings_HasPrefix s ps)"

fun strings_Contains :: "string \<Rightarrow> string \<Rightarrow> bool" where
  "strings_Contains [] sub = (sub = [])"
| "strings_Contains (c # s) sub = (strings_HasPrefix (c # s) sub \<or> strings_Contains s sub)"

text \<open>\<open>uuid.UUID.String\<close>: lower-case hexadecimal in the groups 8-4-4-4-12.\<close>

definition hexdigit :: "nat \<Rightarrow> char" where
  "hexdigit n = ''0123456789abcdef'' ! (n mod 16)"

definition nibble :: "uuid \<Rightarrow> nat \<Rightarrow> nat" where
  "nibble x i = unat (take_bit 4 (drop_bit (4 * (31 - i)) x))"

definition hex :: "uuid \<Rightarrow> nat \<Rightarrow> nat \<Rightarrow> string" where
  "hex x i n = map (\<lambda>k. hexdigit (nibble x k)) [i ..< i + n]"

definition uuid_String :: "uuid \<Rightarrow> string" where
  "uuid_String x =
     hex x 0 8 @ ''-'' @ hex x 8 4 @ ''-'' @ hex x 12 4 @ ''-'' @ hex x 16 4 @ ''-'' @ hex x 20 12"

subsection \<open>Serialisation\<close>

text \<open>
  \<open>json.Marshal\<close> of a \<open>User\<close> writes every field but \<open>Password\<close>, which is tagged
  \<open>json:"-"\<close>; \<open>json.Unmarshal\<close> leaves \<open>Password\<close> at its zero value. A cached
  byte string is either such a document or bytes that do not decode.
\<close>

datatype bytes = JSON User | Raw string

definition json_Marshal :: "User \<Rightarrow> err + bytes" where
  "json_Marshal u = Inr (JSON (u\<lparr>Password := []\<rparr>))"

fun json_Unmarshal :: "bytes \<Rightarrow> err + User" where
  "json_Unmarshal (JSON d) = Inr (d\<lparr>Password := []\<rparr>)"
| "json_Unmarshal (Raw s) = Inl (JsonError ''invalid character looking for beginning of value'')"

section \<open>The environment\<close>

text \<open>
  Everything the process shares with the outside: the \<open>users\<close> table, the Redis
  keyspace, the Kafka topic, the logger's output, the wall clock, the UUID generator
  and the bcrypt library. Each client library call takes the next entry of its
  script: \<open>None\<close> (or an exhausted script) lets the call through, \<open>Some\<close> makes it
  fail with that message. A failed pipeline carries the mask of the commands that the
  server applied all the same.
\<close>

datatype cmd = Set string bytes int | Del string

record Event =
  Type :: string
  EventID :: string
  EventUser :: User
  Timestamp :: int
  Version :: string

record Message =
  Key :: string
  Payload :: Event
  Headers :: "(string \<times> string) list"

record world =
  rows :: "User list"
  db_script :: "string option list"
  redis :: "string \<rightharpoonup> bytes \<times> int"
  redis_script :: "(string \<times> bool list) option list"
  topic :: "Message list"
  offered :: "Event list"
  kafka_script :: "string option list"
  slog :: "(string \<times> err \<times> uuid) list"
  wall :: "nat \<Rightarrow> int"
  ticks :: nat
  uuids :: "nat \<Rightarrow> uuid"
  drawn :: nat
  bcrypt :: "string \<Rightarrow> err + string"

fun pending :: "'a option list \<Rightarrow> 'a option" where
  "pending [] = None"
| "pending (x # xs) = x"

definition time_Now :: "world \<Rightarrow> int \<times> world" where
  "time_Now w = (wall w (ticks w), w\<lparr>ticks := Suc (ticks w)\<rparr>)"

definition uuid_New :: "world \<Rightarrow> uuid \<times> world" where
  "uuid_New w = (uuids w (drawn w), w\<lparr>drawn := Suc (drawn w)\<rparr>)"

definition logger_Warn :: "world \<Rightarrow> string \<Rightarrow> err \<Rightarrow> uuid \<Rightarrow> world" where
  "logger_Warn w msg e uid = w\<lparr>slog := slog w @ [(msg, e, uid)]\<rparr>"

section \<open>Persistent store adapter\<close>

subsection \<open>The table and its statements\<close>

text \<open>
  The table \<open>users\<close> of the migration: \<open>id UUID PRIMARY KEY\<close>, \<open>nickname ... UNIQUE\<close>,
  \<open>email ... UNIQUE\<close>, whose indexes are checked in the order of their creation
  (\<open>users_pkey\<close>, \<open>users_nickname_key\<close>, \<open>users_email_key\<close>). A statement that the
  script fails has no effect on the table. Column widths are not modelled: a value
  that does not fit is one of the failures the script can inject.
\<close>

definition db_done :: "world \<Rightarrow> world" where
  "db_done w = w\<lparr>db_script := tl (db_script w)\<rparr>"

definition unique_violation :: "string \<Rightarrow> string" where
  "unique_violation c =
     ''ERROR: duplicate key value violates unique constraint '' @ [CHR 0x22] @ c @ [CHR 0x22]
       @ '' (SQLSTATE 23505)''"

definition db_Insert :: "world \<Rightarrow> User \<Rightarrow> (err + nat) \<times> world" where
  "db_Insert w u =
     (case pending (db_script w) of
        Some m \<Rightarrow> (Inl (PgError m), db_done w)
      | None \<Rightarrow>
          if \<exists>r \<in> set (rows w). ID r = ID u
            then (Inl (PgError (unique_violation ''users_pkey'')), db_done w)
          else if \<exists>r \<in> set (rows w). Nickname r = Nickname u
            then (Inl (PgError (unique_violation ''users_nickname_key'')), db_done w)
          else if \<exists>r \<in> set (rows w). Email r = Email u
            then (Inl (PgError (unique_violation ''users_email_key'')), db_done w)
          else (Inr 1, db_done (w\<lparr>rows := rows w @ [u]\<rparr>)))"

definition db_Get :: "world \<Rightarrow> (User \<Rightarrow> bool) \<Rightarrow> (err + User) \<times> world" where
  "db_Get w P =
     (case pending (db_script w) of
        Some m \<Rightarrow> (Inl (PgError m), db_done w)
      | None \<Rightarrow>
          (case find P (rows w) of
             None \<Rightarrow> (Inl sql_ErrNoRows, db_done w)
           | Some u \<Rightarrow> (Inr u, db_done w)))"

definition set_columns :: "User \<Rightarrow> int \<Rightarrow> User \<Rightarrow> User" where
  "set_columns u now r =
     r\<lparr>FirstName := FirstName u, LastName := LastName u, Nickname := Nickname u,
       Password := Password u, Email := Email u, Country := Country u, UpdatedAt := now\<rparr>"

definition db_Update :: "world \<Rightarrow> User \<Rightarrow> int \<Rightarrow> (err + nat) \<times> world" where
  "db_Update w u now =
     (case pending (db_script w) of
        Some m \<Rightarrow> (Inl (PgError m), db_done w)
      | None \<Rightarrow>
          if \<not> (\<exists>r \<in> set (rows w). ID r = ID u) then (Inr 0, db_done w)
          else if \<exists>r \<in> set (rows w). ID r \<noteq> ID u \<and> Nickname r = Nickname u
            then (Inl (PgError (unique_violation ''users_nickname_key'')), db_done w)
          else if \<exists>r \<in> set (rows w). ID r \<noteq> ID u \<and> Email r = Email u
            then (Inl (PgError (unique_violation ''users_email_key'')), db_done w)
          else (Inr (length (filter (\<lambda>r. ID r = ID u) (rows w))),
                db_done (w\<lparr>rows := map (\<lambda>r. if ID r = ID u then set_columns u now r else r) (rows w)\<rparr>)))"

definition db_Delete :: "world \<Rightarrow> uuid \<Rightarrow> (err + nat) \<times> world" where
  "db_Delete w uid =
     (case pending (db_script w) of
        Some m \<Rightarrow> (Inl (PgError m), db_done w)
      | None \<Rightarrow>
          (Inr (length (filter (\<lambda>r. ID r = uid) (rows w))),
           db_done (w\<lparr>rows := filter (\<lambda>r. ID r \<noteq> uid) (rows w)\<rparr>)))"

text \<open>
  \<open>ILIKE\<close>: \<open>%\<close> matches any run of characters, \<open>_\<close> any one character, a backslash
  takes the next pattern character literally; letters compare without case.
\<close>

definition lower :: "char \<Rightarrow> char" where
  "lower c =
     (case map_of (zip ''ABCDEFGHIJKLMNOPQRSTUVWXYZ'' ''abcdefghijklmnopqrstuvwxyz'') c of
        Some l \<Rightarrow> l
      | None \<Rightarrow> c)"

fun like :: "string \<Rightarrow> string \<Rightarrow> bool" where
  "like [] s = (s = [])"
| "like (p # ps) [] = (p = CHR ''%'' \<and> like ps [])"
| "like (p # ps) (c # s) =
     (if p = CHR ''%'' then like ps (c # s) \<or> like (p # ps) s
      else if p = CHR ''_'' then like ps s
      else if p = CHR 0x5C then (case ps of [] \<Rightarrow> False | q # qs \<Rightarrow> q = c \<and> like qs s)
      else p = c \<and> like ps s)"

definition ilike :: "string \<Rightarrow> string \<Rightarrow> bool" where
  "ilike s pat = like (map lower pat) (map lower s)"

definition text_column :: "string \<Rightarrow> (User \<Rightarrow> string) option" where
  "text_column c =
     (if c = ''first_name'' then Some FirstName
      else if c = ''last_name'' then Some LastName
      else if c = ''nickname'' then Some Nickname
      else if c = ''password_hash'' then Some Password
      else if c = ''email'' then Some Email
      else if c = ''country'' then Some Country
      else None)"

datatype sqlval = Text string | Timestamptz int | Uuid uuid

definition column :: "string \<Rightarrow> (User \<Rightarrow> sqlval) option" where
  "column c =
     (case text_column c of
        Some f \<Rightarrow> Some (\<lambda>u. Text (f u))
      | None \<Rightarrow>
          if c = ''id'' then Some (\<lambda>u. Uuid (ID u))
          else if c = ''created_at'' then Some (\<lambda>u. Timestamptz (CreatedAt u))
          else if c = ''updated_at'' then Some (\<lambda>u. Timestamptz (UpdatedAt u))
          else None)"

fun text_le :: "string \<Rightarrow> string \<Rightarrow> bool" where
  "text_le [] t = True"
| "text_le (c # s) [] = False"
| "text_le (c # s) (d # t) = ((of_char c :: nat) < of_char d \<or> (c = d \<and> text_le s t))"

fun sql_le :: "sqlval \<Rightarrow> sqlval \<Rightarrow> bool" where
  "sql_le (Text a) (Text b) = text_le a b"
| "sql_le (Timestamptz a) (Timestamptz b) = (a \<le> b)"
| "sql_le (Uuid a) (Uuid b) = (a \<le> b)"
| "sql_le a b = True"

fun insert_by :: "('a \<Rightarrow> 'a \<Rightarrow> bool) \<Rightarrow> 'a \<Rightarrow> 'a list \<Rightarrow> 'a list" where
  "insert_by le x [] = [x]"
| "insert_by le x (y # ys) = (if le x y then x # y # ys else y # insert_by le x ys)"

definition order_by :: "(User \<Rightarrow> sqlval) \<Rightarrow> bool \<Rightarrow> User list \<Rightarrow> User list" where
  "order_by k desc xs =
     foldr (insert_by (\<lambda>a b. if desc then sql_le (k b) (k a) else sql_le (k a) (k b))) xs []"

definition where_ok :: "Filter list \<Rightarrow> bool" where
  "where_ok fs = list_all (\<lambda>f. text_column (Field f) \<noteq> None) fs"

definition matches :: "Filter list \<Rightarrow> User \<Rightarrow> bool" where
  "matches fs u =
     list_all (\<lambda>f. case text_column (Field f) of
                      None \<Rightarrow> False
                    | Some col \<Rightarrow> ilike (col u) (''%'' @ Value f @ ''%'')) fs"

definition db_Count :: "world \<Rightarrow> Filter list \<Rightarrow> (err + int64) \<times> world" where
  "db_Count w fs =
     (case pending (db_script w) of
        Some m \<Rightarrow> (Inl (PgError m), db_done w)
      | None \<Rightarrow>
          if \<not> where_ok fs then (Inl (PgError ''ERROR: invalid WHERE clause''), db_done w)
          else (Inr (word_of_nat (length (filter (matches fs) (rows w)))), db_done w))"

definition db_Select ::
  "world \<Rightarrow> Filter list \<Rightarrow> string \<Rightarrow> bool \<Rightarrow> int64 \<Rightarrow> int64 \<Rightarrow> (err + User list) \<times> world" where
  "db_Select w fs ob desc lim off =
     (case pending (db_script w) of
        Some m \<Rightarrow> (Inl (PgError m), db_done w)
      | None \<Rightarrow>
          if \<not> where_ok fs then (Inl (PgError ''ERROR: invalid WHERE clause''), db_done w)
          else (case column ob of
             None \<Rightarrow> (Inl (PgError ''ERROR: invalid ORDER BY clause''), db_done w)
           | Some k \<Rightarrow>
               if lim <s 0 then (Inl (PgError ''ERROR: LIMIT must not be negative''), db_done w)
               else if off <s 0 then (Inl (PgError ''ERROR: OFFSET must not be negative''), db_done w)
               else (Inr (take (nat (sint lim)) (drop (nat (sint off))
                            (order_by k desc (filter (matches fs) (rows w))))), db_done w)))"

subsection \<open>The repository capability\<close>

record Repository =
  Create :: "world \<Rightarrow> User \<Rightarrow> err option \<times> world"
  GetByID :: "world \<Rightarrow> uuid \<Rightarrow> (err + User) \<times> world"
  GetByEmail :: "world \<Rightarrow> string \<Rightarrow> (err + User) \<times> world"
  GetByNickname :: "world \<Rightarrow> string \<Rightarrow> (err + User) \<times> world"
  Update :: "world \<Rightarrow> User \<Rightarrow> err option \<times> world"
  Delete :: "world \<Rightarrow> uuid \<Rightarrow> err option \<times> world"
  List :: "world \<Rightarrow> ListParams \<Rightarrow> (err + User list \<times> int64) \<times> world"

subsection \<open>\<open>UserRepository\<close>\<close>

definition constraint_error :: "string \<Rightarrow> err \<Rightarrow> err" where
  "constraint_error p e =
     (if strings_Contains (Error e) ''unique constraint'' then
        (if strings_Contains (Error e) ''email'' then ErrEmailTaken
         else if strings_Contains (Error e) ''nickname'' then ErrNicknameTaken
         else Errorf p e)
      else Errorf p e)"

definition UserRepository_Create :: "world \<Rightarrow> User \<Rightarrow> err option \<times> world" where
  "UserRepository_Create w u =
     (case db_Insert w u of
        (Inl e, w1) \<Rightarrow> (Some (constraint_error ''error creating user'' e), w1)
      | (Inr n, w1) \<Rightarrow> (None, w1))"

definition UserRepository_GetByID :: "world \<Rightarrow> uuid \<Rightarrow> (err + User) \<times> world" where
  "UserRepository_GetByID w uid =
     (case db_Get w (\<lambda>r. ID r = uid) of
        (Inl e, w1) \<Rightarrow>
          if e = sql_ErrNoRows then (Inl ErrNotFound, w1)
          else (Inl (Errorf ''error getting user'' e), w1)
      | (Inr u, w1) \<Rightarrow> (Inr u, w1))"

definition UserRepository_GetByEmail :: "world \<Rightarrow> string \<Rightarrow> (err + User) \<times> world" where
  "UserRepository_GetByEmail w email =
     (case db_Get w (\<lambda>r. Email r = email) of
        (Inl e, w1) \<Rightarrow>
          if e = sql_ErrNoRows then (Inl ErrNotFound, w1)
          else (Inl (Errorf ''error getting user by email'' e), w1)
      | (Inr u, w1) \<Rightarrow> (Inr u, w1))"

definition UserRepository_GetByNickname :: "world \<Rightarrow> string \<Rightarrow> (err + User) \<times> world" where
  "UserRepository_GetByNickname w nickname =
     (case db_Get w (\<lambda>r. Nickname r = nickname) of
        (Inl e, w1) \<Rightarrow>
          if e = sql_ErrNoRows then (Inl ErrNotFound, w1)
          else (Inl (Errorf ''error getting user by nickname'' e), w1)
      | (Inr u, w1) \<Rightarrow> (Inr u, w1))"

definition UserRepository_Update :: "world \<Rightarrow> User \<Rightarrow> err option \<times> world" where
  "UserRepository_Update w u =
     (case time_Now w of (now, w0) \<Rightarrow>
        (case db_Update w0 u now of
           (Inl e, w1) \<Rightarrow> (Some (constraint_error ''error updating user'' e), w1)
         | (Inr n, w1) \<Rightarrow> if n = 0 then (Some ErrNotFound, w1) else (None, w1)))"

definition UserRepository_Delete :: "world \<Rightarrow> uuid \<Rightarrow> err option \<times> world" where
  "UserRepository_Delete w uid =
     (case db_Delete w uid of
        (Inl e, w1) \<Rightarrow> (Some (Errorf ''error deleting user'' e), w1)
      | (Inr n, w1) \<Rightarrow> if n = 0 then (Some ErrNotFound, w1) else (None, w1))"

definition UserRepository_List :: "world \<Rightarrow> ListParams \<Rightarrow> (err + User list \<times> int64) \<times> world" where
  "UserRepository_List w params =
     (case db_Count w (Filters params) of
        (Inl e, w1) \<Rightarrow> (Inl (Errorf ''error counting users'' e), w1)
      | (Inr totalCount, w1) \<Rightarrow>
          (case db_Select w1 (Filters params) (OrderBy params) (OrderDesc params)
                  (Limit params) (Offset params) of
             (Inl e, w2) \<Rightarrow> (Inl (Errorf ''error listing users'' e), w2)
           | (Inr users, w2) \<Rightarrow> (Inr (users, totalCount), w2)))"

definition UserRepository :: Repository where
  "UserRepository =
     \<lparr>Create = UserRepository_Create, GetByID = UserRepository_GetByID,
      GetByEmail = UserRepository_GetByEmail, GetByNickname = UserRepository_GetByNickname,
      Update = UserRepository_Update, Delete = UserRepository_Delete,
      List = UserRepository_List\<rparr>"

section \<open>Cache-aside decorator\<close>

subsection \<open>The Redis client\<close>

definition redis_done :: "world \<Rightarrow> world" where
  "redis_done w = w\<lparr>redis_script := tl (redis_script w)\<rparr>"

definition redis_Get :: "world \<Rightarrow> string \<Rightarrow> (err + bytes) \<times> world" where
  "redis_Get w k =
     (case pending (redis_script w) of
        Some (m, applied) \<Rightarrow> (Inl (RedisError m), redis_done w)
      | None \<Rightarrow>
          (case redis w k of
             None \<Rightarrow> (Inl redis_Nil, redis_done w)
           | Some (v, ttl) \<Rightarrow> (Inr v, redis_done w)))"

fun run_cmd :: "cmd \<Rightarrow> (string \<rightharpoonup> bytes \<times> int) \<Rightarrow> (string \<rightharpoonup> bytes \<times> int)" where
  "run_cmd (Set k v ttl) m = m(k \<mapsto> (v, ttl))"
| "run_cmd (Del k) m = m(k := None)"

fun run_pipe :: "cmd list \<Rightarrow> (string \<rightharpoonup> bytes \<times> int) \<Rightarrow> (string \<rightharpoonup> bytes \<times> int)" where
  "run_pipe [] m = m"
| "run_pipe (c # cs) m = run_pipe cs (run_cmd c m)"

fun run_masked ::
  "cmd list \<Rightarrow> bool list \<Rightarrow> (string \<rightharpoonup> bytes \<times> int) \<Rightarrow> (string \<rightharpoonup> bytes \<times> int)" where
  "run_masked [] bs m = m"
| "run_masked (c # cs) [] m = m"
| "run_masked (c # cs) (b # bs) m = run_masked cs bs (if b then run_cmd c m else m)"

definition redis_Exec :: "world \<Rightarrow> cmd list \<Rightarrow> err option \<times> world" where
  "redis_Exec w pipe =
     (case pending (redis_script w) of
        Some (m, applied) \<Rightarrow>
          (Some (RedisError m), redis_done (w\<lparr>redis := run_masked pipe applied (redis w)\<rparr>))
      | None \<Rightarrow> (None, redis_done (w\<lparr>redis := run_pipe pipe (redis w)\<rparr>)))"

subsection \<open>\<open>CacheDecorator\<close>\<close>

definition userKeyPrefix :: string where "userKeyPrefix = ''user:''"
definition emailKeyPrefix :: string where "emailKeyPrefix = ''user:email:''"
definition nickKeyPrefix :: string where "nickKeyPrefix = ''user:nick:''"

definition userKey :: "uuid \<Rightarrow> string" where
  "userKey uid = userKeyPrefix @ uuid_String uid"

definition emailKey :: "string \<Rightarrow> string" where
  "emailKey email = emailKeyPrefix @ email"

definition nickKey :: "string \<Rightarrow> string" where
  "nickKey nickname = nickKeyPrefix @ nickname"

definition cacheUser :: "int \<Rightarrow> world \<Rightarrow> User \<Rightarrow> err option \<times> world" where
  "cacheUser ttl w u =
     (case json_Marshal u of
        Inl e \<Rightarrow> (Some (Errorf ''error marshaling user'' e), w)
      | Inr data \<Rightarrow>
          (case redis_Exec w [Set (userKey (ID u)) data ttl,
                              Set (emailKey (Email u)) data ttl,
                              Set (nickKey (Nickname u)) data ttl] of
             (Some e, w1) \<Rightarrow> (Some (Errorf ''error executing cache pipeline'' e), w1)
           | (None, w1) \<Rightarrow> (None, w1)))"

definition getUserFromCache :: "world \<Rightarrow> string \<Rightarrow> (err + User) \<times> world" where
  "getUserFromCache w k =
     (case redis_Get w k of
        (Inl e, w1) \<Rightarrow> (Inl e, w1)
      | (Inr data, w1) \<Rightarrow>
          (case json_Unmarshal data of
             Inl e \<Rightarrow> (Inl (Errorf ''error unmarshaling user'' e), w1)
           | Inr u \<Rightarrow> (Inr u, w1)))"

definition invalidateUserCache :: "world \<Rightarrow> User \<Rightarrow> err option \<times> world" where
  "invalidateUserCache w u =
     (case redis_Exec w [Del (userKey (ID u)), Del (emailKey (Email u)), Del (nickKey (Nickname u))] of
        (Some e, w1) \<Rightarrow> (Some (Errorf ''error executing cache invalidation'' e), w1)
      | (None, w1) \<Rightarrow> (None, w1))"

definition CacheDecorator_Create :: "Repository \<Rightarrow> int \<Rightarrow> world \<Rightarrow> User \<Rightarrow> err option \<times> world" where
  "CacheDecorator_Create repo ttl w u =
     (case Create repo w u of
        (Some e, w1) \<Rightarrow> (Some e, w1)
      | (None, w1) \<Rightarrow>
          (case cacheUser ttl w1 u of
             (Some e, w2) \<Rightarrow> (Some (Errorf ''error caching user'' e), w2)
           | (None, w2) \<Rightarrow> (None, w2)))"

definition CacheDecorator_GetByID :: "Repository \<Rightarrow> int \<Rightarrow> world \<Rightarrow> uuid \<Rightarrow> (err + User) \<times> world" where
  "CacheDecorator_GetByID repo ttl w uid =
     (case getUserFromCache w (userKey uid) of
        (Inr u, w1) \<Rightarrow> (Inr u, w1)
      | (Inl miss, w1) \<Rightarrow>
          (case GetByID repo w1 uid of
             (Inl e, w2) \<Rightarrow> (Inl e, w2)
           | (Inr u, w2) \<Rightarrow>
               (case cacheUser ttl w2 u of
                  (Some e, w3) \<Rightarrow> (Inl (Errorf ''error caching user'' e), w3)
                | (None, w3) \<Rightarrow> (Inr u, w3))))"

definition CacheDecorator_GetByEmail :: "Repository \<Rightarrow> int \<Rightarrow> world \<Rightarrow> string \<Rightarrow> (err + User) \<times> world" where
  "CacheDecorator_GetByEmail repo ttl w email =
     (case getUserFromCache w (emailKey email) of
        (Inr u, w1) \<Rightarrow> (Inr u, w1)
      | (Inl miss, w1) \<Rightarrow>
          (case GetByEmail repo w1 email of
             (Inl e, w2) \<Rightarrow> (Inl e, w2)
           | (Inr u, w2) \<Rightarrow>
               (case cacheUser ttl w2 u of
                  (Some e, w3) \<Rightarrow> (Inl (Errorf ''error caching user'' e), w3)
                | (None, w3) \<Rightarrow> (Inr u, w3))))"

definition CacheDecorator_GetByNickname :: "Repository \<Rightarrow> int \<Rightarrow> world \<Rightarrow> string \<Rightarrow> (err + User) \<times> world" where
  "CacheDecorator_GetByNickname repo ttl w nickname =
     (case getUserFromCache w (nickKey nickname) of
        (Inr u, w1) \<Rightarrow> (Inr u, w1)
      | (Inl miss, w1) \<Rightarrow>
          (case GetByNickname repo w1 nickname of
             (Inl e, w2) \<Rightarrow> (Inl e, w2)
           | (Inr u, w2) \<Rightarrow>
               (case cacheUser ttl w2 u of
                  (Some e, w3) \<Rightarrow> (Inl (Errorf ''error caching user'' e), w3)
                | (None, w3) \<Rightarrow> (Inr u, w3))))"

definition CacheDecorator_Update :: "Repository \<Rightarrow> int \<Rightarrow> world \<Rightarrow> User \<Rightarrow> err option \<times> world" where
  "CacheDecorator_Update repo ttl w u =
     (case GetByID repo w (ID u) of
        (Inl e, w1) \<Rightarrow> (Some e, w1)
      | (Inr oldUser, w1) \<Rightarrow>
          (case Update repo w1 u of
             (Some e, w2) \<Rightarrow> (Some e, w2)
           | (None, w2) \<Rightarrow>
               (case invalidateUserCache w2 oldUser of
                  (Some e, w3) \<Rightarrow> (Some (Errorf ''error invalidating cache'' e), w3)
                | (None, w3) \<Rightarrow>
                    (case GetByID repo w3 (ID u) of
                       (Inl e, w4) \<Rightarrow> (Some e, w4)
                     | (Inr updatedUser, w4) \<Rightarrow>
                         (case cacheUser ttl w4 updatedUser of
                            (Some e, w5) \<Rightarrow> (Some (Errorf ''error caching updated user'' e), w5)
                          | (None, w5) \<Rightarrow> (None, w5))))))"

definition CacheDecorator_Delete :: "Repository \<Rightarrow> int \<Rightarrow> world \<Rightarrow> uuid \<Rightarrow> err option \<times> world" where
  "CacheDecorator_Delete repo ttl w uid =
     (case GetByID repo w uid of
        (Inl e, w1) \<Rightarrow> (Some e, w1)
      | (Inr u, w1) \<Rightarrow>
          (case Delete repo w1 uid of
             (Some e, w2) \<Rightarrow> (Some e, w2)
           | (None, w2) \<Rightarrow>
               (case invalidateUserCache w2 u of
                  (Some e, w3) \<Rightarrow> (Some (Errorf ''error invalidating cache'' e), w3)
                | (None, w3) \<Rightarrow> (None, w3))))"

definition CacheDecorator_List ::
  "Repository \<Rightarrow> int \<Rightarrow> world \<Rightarrow> ListParams \<Rightarrow> (err + User list \<times> int64) \<times> world" where
  "CacheDecorator_List repo ttl w params = List repo w params"

definition NewCacheDecorator :: "Repository \<Rightarrow> int \<Rightarrow> Repository" where
  "NewCacheDecorator repo ttl =
     \<lparr>Create = CacheDecorator_Create repo ttl, GetByID = CacheDecorator_GetByID repo ttl,
      GetByEmail = CacheDecorator_GetByEmail repo ttl,
      GetByNickname = CacheDecorator_GetByNickname repo ttl,
      Update = CacheDecorator_Update repo ttl, Delete = CacheDecorator_Delete repo ttl,
      List = CacheDecorator_List repo ttl\<rparr>"

section \<open>Event notifier\<close>

definition EventTypeCreated :: string where "EventTypeCreated = ''created''"
definition EventTypeUpdated :: string where "EventTypeUpdated = ''updated''"
definition EventTypeDeleted :: string where "EventTypeDeleted = ''deleted''"

text \<open>
  The Kafka writer: every message it is asked to write is an event offered to the
  transport; the message reaches the topic unless the script fails the write.
\<close>

definition kafka_WriteMessages :: "world \<Rightarrow> Event \<Rightarrow> Message \<Rightarrow> err option \<times> world" where
  "kafka_WriteMessages w event msg =
     (case pending (kafka_script w) of
        Some m \<Rightarrow>
          (Some (KafkaError m),
           w\<lparr>kafka_script := tl (kafka_script w), offered := offered w @ [event]\<rparr>)
      | None \<Rightarrow>
          (None,
           w\<lparr>kafka_script := tl (kafka_script w), offered := offered w @ [event],
             topic := topic w @ [msg]\<rparr>))"

record Publisher =
  PublishCreatedUser :: "world \<Rightarrow> User \<Rightarrow> err option \<times> world"
  PublishUpdatedUser :: "world \<Rightarrow> User \<Rightarrow> err option \<times> world"
  PublishDeletedUser :: "world \<Rightarrow> User \<Rightarrow> err option \<times> world"

definition createUserEvent :: "world \<Rightarrow> User \<Rightarrow> string \<Rightarrow> Event \<times> world" where
  "createUserEvent w u eventType =
     (case uuid_New w of (eid, w1) \<Rightarrow>
        (case time_Now w1 of (now, w2) \<Rightarrow>
           (\<lparr>Type = eventType, EventID = uuid_String eid, EventUser = u, Timestamp = now,
             Version = ''1.0''\<rparr>, w2)))"

text \<open>The event document: the event with its user serialised as above.\<close>

definition json_MarshalEvent :: "Event \<Rightarrow> err + Event" where
  "json_MarshalEvent event = Inr (event\<lparr>EventUser := (EventUser event)\<lparr>Password := []\<rparr>\<rparr>)"

definition Publish :: "world \<Rightarrow> Event \<Rightarrow> err option \<times> world" where
  "Publish w event =
     (case json_MarshalEvent event of
        Inl e \<Rightarrow> (Some (Errorf ''failed to marshal event payload'' e), w)
      | Inr payload \<Rightarrow>
          kafka_WriteMessages w event
            \<lparr>Key = EventID event, Payload = payload,
             Headers = [(''event-id'', EventID event), (''event-type'', Type event),
                        (''event-schema-version'', Version event)]\<rparr>)"

definition UserEventPublisher_PublishCreatedUser :: "world \<Rightarrow> User \<Rightarrow> err option \<times> world" where
  "UserEventPublisher_PublishCreatedUser w u =
     (case createUserEvent w u EventTypeCreated of (event, w1) \<Rightarrow> Publish w1 event)"

definition UserEventPublisher_PublishUpdatedUser :: "world \<Rightarrow> User \<Rightarrow> err option \<times> world" where
  "UserEventPublisher_PublishUpdatedUser w u =
     (case createUserEvent w u EventTypeUpdated of (event, w1) \<Rightarrow> Publish w1 event)"

definition UserEventPublisher_PublishDeletedUser :: "world \<Rightarrow> User \<Rightarrow> err option \<times> world" where
  "UserEventPublisher_PublishDeletedUser w u =
     (case createUserEvent w u EventTypeDeleted of (event, w1) \<Rightarrow> Publish w1 event)"

definition UserEventPublisher :: Publisher where
  "UserEventPublisher =
     \<lparr>PublishCreatedUser = UserEventPublisher_PublishCreatedUser,
      PublishUpdatedUser = UserEventPublisher_PublishUpdatedUser,
      PublishDeletedUser = UserEventPublisher_PublishDeletedUser\<rparr>"

section \<open>Domain orchestrator\<close>

definition Service_CreateUser ::
  "Repository \<Rightarrow> Publisher \<Rightarrow> world \<Rightarrow> User \<Rightarrow> (err + User) \<times> world" where
  "Service_CreateUser repo publisher w user0 =
     (case bcrypt w (Password user0) of
        Inl e \<Rightarrow> (Inl (Errorf ''failed to hash password'' e), w)
      | Inr hashedPassword \<Rightarrow>
          (case uuid_New w of (uid, w1) \<Rightarrow>
          (case time_Now w1 of (t1, w2) \<Rightarrow>
          (case time_Now w2 of (t2, w3) \<Rightarrow>
            (let user = user0\<lparr>ID := uid, Password := hashedPassword, CreatedAt := t1,
                               UpdatedAt := t2\<rparr>
             in case GetByEmail repo w3 (Email user) of
                  (Inr found, w4) \<Rightarrow> (Inl ErrEmailTaken, w4)
                | (Inl e1, w4) \<Rightarrow>
                    (case GetByNickname repo w4 (Nickname user) of
                       (Inr found, w5) \<Rightarrow> (Inl ErrNicknameTaken, w5)
                     | (Inl e2, w5) \<Rightarrow>
                         (case Create repo w5 user of
                            (Some e, w6) \<Rightarrow> (Inl (Errorf ''failed to save user'' e), w6)
                          | (None, w6) \<Rightarrow>
                              (case PublishCreatedUser publisher w6 user of
                                 (Some e, w7) \<Rightarrow>
                                   (Inr user,
                                    logger_Warn w7 ''failed to publish user created event'' e (ID user))
                               | (None, w7) \<Rightarrow> (Inr user, w7)))))))))"

definition Service_GetUser :: "Repository \<Rightarrow> world \<Rightarrow> uuid \<Rightarrow> (err + User) \<times> world" where
  "Service_GetUser repo w uid =
     (case GetByID repo w uid of
        (Inl e, w1) \<Rightarrow> (Inl (Errorf ''failed to get user'' e), w1)
      | (Inr user, w1) \<Rightarrow> (Inr user, w1))"

text \<open>The merge of lines 79-90 of \<open>UpdateUser\<close>: the four fields that need no lookup.\<close>

definition UpdateUser_merge :: "User \<Rightarrow> User \<Rightarrow> User" where
  "UpdateUser_merge user updatedUser =
     (let u1 = (if FirstName updatedUser \<noteq> [] \<and> FirstName user \<noteq> FirstName updatedUser
                then user\<lparr>FirstName := FirstName updatedUser\<rparr> else user);
          u2 = (if LastName updatedUser \<noteq> [] \<and> LastName u1 \<noteq> LastName updatedUser
                then u1\<lparr>LastName := LastName updatedUser\<rparr> else u1);
          u3 = (if Nickname updatedUser \<noteq> [] \<and> Nickname u2 \<noteq> Nickname updatedUser
                then u2\<lparr>Nickname := Nickname updatedUser\<rparr> else u2)
      in (if Country updatedUser \<noteq> [] \<and> Country u3 \<noteq> Country updatedUser
          then u3\<lparr>Country := Country updatedUser\<rparr> else u3))"

text \<open>Lines 98-109 of \<open>UpdateUser\<close>: save, publish, return.\<close>

definition UpdateUser_save ::
  "Repository \<Rightarrow> Publisher \<Rightarrow> world \<Rightarrow> User \<Rightarrow> (err + User) \<times> world" where
  "UpdateUser_save repo publisher w user =
     (case Update repo w user of
        (Some e, w1) \<Rightarrow> (Inl (Errorf ''failed to save user changes'' e), w1)
      | (None, w1) \<Rightarrow>
          (case PublishUpdatedUser publisher w1 user of
             (Some e, w2) \<Rightarrow>
               (Inr user, logger_Warn w2 ''failed to publish user updated event'' e (ID user))
           | (None, w2) \<Rightarrow> (Inr user, w2)))"

definition Service_UpdateUser ::
  "Repository \<Rightarrow> Publisher \<Rightarrow> world \<Rightarrow> uuid \<Rightarrow> User \<Rightarrow> (err + User) \<times> world" where
  "Service_UpdateUser repo publisher w uid updatedUser =
     (case GetByID repo w uid of
        (Inl e, w1) \<Rightarrow>
          if errors_Is e ErrNotFound then (Inl e, w1)
          else (Inl (Errorf ''failed to get user for update'' e), w1)
      | (Inr fetched, w1) \<Rightarrow>
          (let user = UpdateUser_merge fetched updatedUser
           in if Email updatedUser \<noteq> [] \<and> Email user \<noteq> Email updatedUser then
                (case GetByEmail repo w1 (Email updatedUser) of
                   (Inr existingUser, w2) \<Rightarrow>
                     if ID existingUser \<noteq> uid then (Inl ErrEmailTaken, w2)
                     else UpdateUser_save repo publisher w2 (user\<lparr>Email := Email updatedUser\<rparr>)
                 | (Inl e, w2) \<Rightarrow>
                     UpdateUser_save repo publisher w2 (user\<lparr>Email := Email updatedUser\<rparr>))
              else UpdateUser_save repo publisher w1 user))"

definition Service_DeleteUser ::
  "Repository \<Rightarrow> Publisher \<Rightarrow> world \<Rightarrow> uuid \<Rightarrow> err option \<times> world" where
  "Service_DeleteUser repo publisher w uid =
     (case GetByID repo w uid of
        (Inl e, w1) \<Rightarrow>
          if errors_Is e ErrNotFound then (Some e, w1)
          else (Some (Errorf ''failed to get user for deletion'' e), w1)
      | (Inr user, w1) \<Rightarrow>
          (case Delete repo w1 uid of
             (Some e, w2) \<Rightarrow> (Some (Errorf ''failed to delete user from repository'' e), w2)
           | (None, w2) \<Rightarrow>
               (case PublishDeletedUser publisher w2 user of
                  (Some e, w3) \<Rightarrow>
                    (None, logger_Warn w3 ''failed to publish user deleted event'' e (ID user))
                | (None, w3) \<Rightarrow> (None, w3))))"

definition allowedFilters :: "string set" where
  "allowedFilters = {''first_name'', ''last_name'', ''nickname'', ''email'', ''country''}"

text \<open>Lines 136-155 of \<open>ListUsers\<close>: the parameters handed to the repository.\<close>

definition ListUsers_params :: "ListParams \<Rightarrow> ListParams" where
  "ListUsers_params params =
     (let validFilters = filter (\<lambda>f. Field f \<in> allowedFilters) (Filters params);
          params1 = params\<lparr>Filters := validFilters\<rparr>
      in if OrderBy params1 \<noteq> [] then
           (if OrderBy params1 \<notin> allowedFilters \<and> OrderBy params1 \<noteq> ''created_at''
                 \<and> OrderBy params1 \<noteq> ''updated_at''
            then params1\<lparr>OrderBy := ''created_at''\<rparr> else params1)
         else params1)"

definition Service_ListUsers ::
  "Repository \<Rightarrow> world \<Rightarrow> ListParams \<Rightarrow> (err + User list \<times> bool \<times> int64) \<times> world" where
  "Service_ListUsers repo w params0 =
     (let params = ListUsers_params params0
      in case List repo w params of
           (Inl e, w1) \<Rightarrow> (Inl (Errorf ''failed to list users'' e), w1)
         | (Inr (users, totalCount), w1) \<Rightarrow>
             (let hasMore = (0 <s Limit params \<and> Offset params + Limit params <s totalCount)
              in (Inr (users, hasMore, totalCount), w1)))"

section \<open>The assembled system\<close>

text \<open>\<open>main\<close> wires the service to the decorator over the store, and to the Kafka publisher.\<close>

definition cachedRepo :: "int \<Rightarrow> Repository" where
  "cachedRepo ttl = NewCacheDecorator UserRepository ttl"

section \<open>Properties of the cache triple\<close>

definition cached_triple :: "world \<Rightarrow> User \<Rightarrow> (bytes \<times> int) option \<Rightarrow> bool" where
  "cached_triple w u v \<longleftrightarrow>
     redis w (userKey (ID u)) = v \<and> redis w (emailKey (Email u)) = v
       \<and> redis w (nickKey (Nickname u)) = v"

text \<open>No call of a client library is scripted to fail.\<close>

definition calm :: "world \<Rightarrow> bool" where
  "calm w \<longleftrightarrow> db_script w = [] \<and> redis_script w = [] \<and> kafka_script w = []"

text \<open>The entry under a key, if there is one, is the serialised record.\<close>

definition cache_agrees :: "world \<Rightarrow> string \<Rightarrow> User \<Rightarrow> bool" where
  "cache_agrees w k r \<longleftrightarrow>
     (case redis w k of None \<Rightarrow> True | Some (v, t) \<Rightarrow> json_Marshal r = Inr v)"

text \<open>The keyspace after the pipelines of \<open>cacheUser\<close> and \<open>invalidateUserCache\<close>.\<close>

definition triple_set ::
  "int \<Rightarrow> User \<Rightarrow> (string \<rightharpoonup> bytes \<times> int) \<Rightarrow> (string \<rightharpoonup> bytes \<times> int)" where
  "triple_set ttl u m =
     run_pipe [Set (userKey (ID u)) (JSON (u\<lparr>Password := []\<rparr>)) ttl,
               Set (emailKey (Email u)) (JSON (u\<lparr>Password := []\<rparr>)) ttl,
               Set (nickKey (Nickname u)) (JSON (u\<lparr>Password := []\<rparr>)) ttl] m"

definition triple_del :: "User \<Rightarrow> (string \<rightharpoonup> bytes \<times> int) \<Rightarrow> (string \<rightharpoonup> bytes \<times> int)" where
  "triple_del u m =
     run_pipe [Del (userKey (ID u)), Del (emailKey (Email u)), Del (nickKey (Nickname u))] m"

text \<open>What the event notifier and the logger have produced, and the transport's script.\<close>

definition outbox ::
  "world \<Rightarrow> Event list \<times> Message list \<times> string option list \<times> (string \<times> err \<times> uuid) list" where
  "outbox w = (offered w, topic w, kafka_script w, slog w)"

section \<open>Fixtures\<close>

definition alice :: User where
  "alice = \<lparr>ID = 1, FirstName = ''Alice'', LastName = ''Doe'', Nickname = ''alice'',
             Password = ''$2a$10$hashA'', Email = ''alice@example.com'', Country = ''US'',
             CreatedAt = 10, UpdatedAt = 10\<rparr>"

definition bob :: User where
  "bob = \<lparr>ID = 2, FirstName = ''Bob'', LastName = ''Johnson'', Nickname = ''bjohnson'',
           Password = ''$2a$10$hashB'', Email = ''bob@example.com'', Country = ''US'',
           CreatedAt = 20, UpdatedAt = 20\<rparr>"

definition carol :: User where
  "carol = \<lparr>ID = 3, FirstName = ''Carol'', LastName = ''Smith'', Nickname = ''csmith'',
             Password = ''$2a$10$hashC'', Email = ''carol@example.com'', Country = ''UK'',
             CreatedAt = 30, UpdatedAt = 30\<rparr>"

definition empty_world :: world where
  "empty_world =
     \<lparr>rows = [], db_script = [], redis = Map.empty, redis_script = [], topic = [],
      offered = [], kafka_script = [], slog = [], wall = (\<lambda>n. 1000 + int n), ticks = 0,
      uuids = (\<lambda>n. word_of_nat (n + 100)), drawn = 0,
      bcrypt = (\<lambda>p. Inr (''$2a$10$'' @ p))\<rparr>"

text \<open>An update request that names a country only.\<close>

definition country_only :: User where
  "country_only = \<lparr>ID = 0, FirstName = [], LastName = [], Nickname = [], Password = [],
                    Email = [], Country = ''UK'', CreatedAt = 0, UpdatedAt = 0\<rparr>"

section \<open>Cache keys\<close>

lemma hexdigit_cases: "hexdigit n \<in> set ''0123456789abcdef''"
proof -
  have "n mod 16 < 16" by simp
  then have "n mod 16 < length ''0123456789abcdef''" by simp
  then show ?thesis unfolding hexdigit_def by (rule nth_mem)
qed

lemma hexdigit_not: "hexdigit n \<noteq> CHR ''m''" "hexdigit n \<noteq> CHR ''i''"
  using hexdigit_cases [of n] by auto

lemma uuid_String_shape: "\<exists>a rest. uuid_String x = a # hexdigit (nibble x 1) # rest"
  by (simp add: uuid_String_def hex_def upt_rec)

lemma userKey_neq_emailKey [simp]: "userKey i \<noteq> emailKey e" "emailKey e \<noteq> userKey i"
proof -
  obtain a rest where s: "uuid_String i = a # hexdigit (nibble i 1) # rest"
    using uuid_String_shape by blast
  show "userKey i \<noteq> emailKey e"
    by (simp add: userKey_def emailKey_def userKeyPrefix_def emailKeyPrefix_def s hexdigit_not)
  then show "emailKey e \<noteq> userKey i" by (rule not_sym)
qed

lemma userKey_neq_nickKey [simp]: "userKey i \<noteq> nickKey e" "nickKey e \<noteq> userKey i"
proof -
  obtain a rest where s: "uuid_String i = a # hexdigit (nibble i 1) # rest"
    using uuid_String_shape by blast
  show "userKey i \<noteq> nickKey e"
    by (simp add: userKey_def nickKey_def userKeyPrefix_def nickKeyPrefix_def s hexdigit_not)
  then show "nickKey e \<noteq> userKey i" by (rule not_sym)
qed

lemma emailKey_neq_nickKey [simp]: "emailKey e \<noteq> nickKey n" "nickKey n \<noteq> emailKey e"
  by (simp_all add: emailKey_def nickKey_def emailKeyPrefix_def nickKeyPrefix_def)

lemma emailKey_inj [simp]: "emailKey a = emailKey b \<longleftrightarrow> a = b"
  by (simp add: emailKey_def)

lemma nickKey_inj [simp]: "nickKey a = nickKey b \<longleftrightarrow> a = b"
  by (simp add: nickKey_def)

section \<open>Triple-key consistency\<close>






lemmas store_defs =
  UserRepository_def UserRepository_Create_def UserRepository_GetByID_def
  UserRepository_GetByEmail_def UserRepository_GetByNickname_def UserRepository_Update_def
  UserRepository_Delete_def UserRepository_List_def db_Insert_def db_Get_def db_Update_def
  db_Delete_def db_done_def time_Now_def set_columns_def

lemmas cache_defs =
  CacheDecorator_Create_def CacheDecorator_GetByID_def CacheDecorator_GetByEmail_def
  CacheDecorator_GetByNickname_def CacheDecorator_Update_def CacheDecorator_Delete_def
  cacheUser_def getUserFromCache_def invalidateUserCache_def json_Marshal_def
  redis_Exec_def redis_Get_def redis_done_def

lemmas fixture_defs = empty_world_def alice_def bob_def carol_def country_only_def


section \<open>Failure semantics of the decorator\<close>





section \<open>The uniqueness pre-check of \<open>CreateUser\<close>\<close>

lemmas service_defs =
  Service_CreateUser_def Service_UpdateUser_def Service_DeleteUser_def Service_ListUsers_def
  Service_GetUser_def UpdateUser_merge_def UpdateUser_save_def ListUsers_params_def
  logger_Warn_def uuid_New_def cachedRepo_def NewCacheDecorator_def

lemmas publisher_defs =
  UserEventPublisher_def UserEventPublisher_PublishCreatedUser_def
  UserEventPublisher_PublishUpdatedUser_def UserEventPublisher_PublishDeletedUser_def
  createUserEvent_def Publish_def json_MarshalEvent_def kafka_WriteMessages_def
  EventTypeCreated_def EventTypeUpdated_def EventTypeDeleted_def

text \<open>
  Claim C10. Once the password is hashed, \<open>CreateUser\<close> returns the sentinel
  \<open>ErrEmailTaken\<close> exactly when the by-email lookup returns a record, and the sentinel
  \<open>ErrNicknameTaken\<close> exactly when the by-email lookup fails and the by-nickname lookup
  returns a record. When both lookups fail, with whatever error, the user is handed to
  the repository's \<open>Create\<close>, whose outcome alone decides the call: success when it
  succeeds, its error wrapped when it fails. This holds over any repository and any
  publisher.
\<close>

theorem C10_precheck_treats_errors_as_available:
  assumes "bcrypt w (Password user0) = Inr h"
    and "uuid_New w = (uid, w1)" and "time_Now w1 = (t1, w2)" and "time_Now w2 = (t2, w3)"
    and "user = user0\<lparr>ID := uid, Password := h, CreatedAt := t1, UpdatedAt := t2\<rparr>"
  shows
    "(fst (Service_CreateUser repo publisher w user0) = Inl ErrEmailTaken \<longleftrightarrow>
        (\<exists>found. fst (GetByEmail repo w3 (Email user0)) = Inr found))
     \<and> (fst (Service_CreateUser repo publisher w user0) = Inl ErrNicknameTaken \<longleftrightarrow>
        (\<exists>e1 found. fst (GetByEmail repo w3 (Email user0)) = Inl e1
           \<and> fst (GetByNickname repo (snd (GetByEmail repo w3 (Email user0))) (Nickname user0))
               = Inr found))
     \<and> (GetByEmail repo w3 (Email user0) = (Inl e1, w4)
          \<and> GetByNickname repo w4 (Nickname user0) = (Inl e2, w5) \<longrightarrow>
        (Create repo w5 user = (None, w6) \<longrightarrow>
           fst (Service_CreateUser repo publisher w user0) = Inr user)
        \<and> (Create repo w5 user = (Some e, w6) \<longrightarrow>
           Service_CreateUser repo publisher w user0 = (Inl (Errorf ''failed to save user'' e), w6)))"
proof (intro conjI impI)
  show "fst (Service_CreateUser repo publisher w user0) = Inl ErrEmailTaken \<longleftrightarrow>
        (\<exists>found. fst (GetByEmail repo w3 (Email user0)) = Inr found)"
    using assms
    by (auto simp: Service_CreateUser_def Let_def split: prod.splits sum.splits option.splits)
  show "fst (Service_CreateUser repo publisher w user0) = Inl ErrNicknameTaken \<longleftrightarrow>
        (\<exists>e1 found. fst (GetByEmail repo w3 (Email user0)) = Inl e1
           \<and> fst (GetByNickname repo (snd (GetByEmail repo w3 (Email user0))) (Nickname user0))
               = Inr found)"
    using assms
    by (auto simp: Service_CreateUser_def Let_def split: prod.splits sum.splits option.splits)
next
  assume "GetByEmail repo w3 (Email user0) = (Inl e1, w4)
          \<and> GetByNickname repo w4 (Nickname user0) = (Inl e2, w5)"
    and "Create repo w5 user = (None, w6)"
  with assms show "fst (Service_CreateUser repo publisher w user0) = Inr user"
    by (auto simp: Service_CreateUser_def Let_def split: prod.splits sum.splits option.splits)
next
  assume "GetByEmail repo w3 (Email user0) = (Inl e1, w4)
          \<and> GetByNickname repo w4 (Nickname user0) = (Inl e2, w5)"
    and "Create repo w5 user = (Some e, w6)"
  with assms show
    "Service_CreateUser repo publisher w user0 = (Inl (Errorf ''failed to save user'' e), w6)"
    by (auto simp: Service_CreateUser_def Let_def split: prod.splits sum.splits option.splits)
qed

theorem C10_precheck_treats_errors_as_available_witness:
  "fst (Service_CreateUser (cachedRepo 60) UserEventPublisher
          (empty_world\<lparr>db_script := [Some ''timeout'', Some ''timeout'']\<rparr>)
          (alice\<lparr>Password := ''secret''\<rparr>))
     = Inr (alice\<lparr>ID := 100, Password := ''$2a$10$secret'', CreatedAt := 1000, UpdatedAt := 1001\<rparr>)
   \<and> fst (Service_CreateUser (cachedRepo 60) UserEventPublisher
          (empty_world\<lparr>rows := [alice], db_script := [Some ''timeout'']\<rparr>)
          (bob\<lparr>Password := ''secret'', Email := ''alice@example.com''\<rparr>))
     = Inl (Errorf ''failed to save user'' ErrEmailTaken)
   \<and> fst (Service_CreateUser (cachedRepo 60) UserEventPublisher
          (empty_world\<lparr>rows := [alice]\<rparr>)
          (bob\<lparr>Password := ''secret'', Email := ''alice@example.com''\<rparr>))
     = Inl ErrEmailTaken"
proof -
  note C10 = C10_precheck_treats_errors_as_available
  let ?R = "cachedRepo 60"
  let ?w = "empty_world\<lparr>db_script := [Some ''timeout'', Some ''timeout'']\<rparr>"
  let ?wp = "?w\<lparr>drawn := 1, ticks := 2\<rparr>"
  let ?ureq = "alice\<lparr>Password := ''secret''\<rparr>"
  let ?u = "?ureq\<lparr>ID := 100, Password := ''$2a$10$secret'', CreatedAt := 1000, UpdatedAt := 1001\<rparr>"
  let ?le = "GetByEmail ?R ?wp (Email ?ureq)"
  let ?ln = "GetByNickname ?R (snd ?le) (Nickname ?ureq)"
  let ?cr = "Create ?R (snd ?ln) ?u"
  have p: "bcrypt ?w (Password ?ureq) = Inr ''$2a$10$secret''"
    "uuid_New ?w = (100, ?w\<lparr>drawn := 1\<rparr>)"
    "time_Now (?w\<lparr>drawn := 1\<rparr>) = (1000, ?w\<lparr>drawn := 1, ticks := 1\<rparr>)"
    "time_Now (?w\<lparr>drawn := 1, ticks := 1\<rparr>) = (1001, ?wp)"
    by (simp_all add: fixture_defs uuid_New_def time_Now_def)
  have q: "?le = (Inl (Errorf ''error getting user by email'' (PgError ''timeout'')), snd ?le)
           \<and> ?ln = (Inl (Errorf ''error getting user by nickname'' (PgError ''timeout'')), snd ?ln)"
    by (simp add: prod_eq_iff service_defs cache_defs store_defs fixture_defs)
  have r: "?cr = (None, snd ?cr)"
    by (simp add: prod_eq_iff service_defs cache_defs store_defs fixture_defs)
  from C10 [OF p refl, THEN conjunct2, THEN conjunct2, rule_format, OF q, THEN conjunct1,
            rule_format, OF r]
  have c1: "fst (Service_CreateUser ?R UserEventPublisher ?w ?ureq) = Inr ?u" .
  let ?x = "empty_world\<lparr>rows := [alice], db_script := [Some ''timeout'']\<rparr>"
  let ?xp = "?x\<lparr>drawn := 1, ticks := 2\<rparr>"
  let ?vreq = "bob\<lparr>Password := ''secret'', Email := ''alice@example.com''\<rparr>"
  let ?v = "?vreq\<lparr>ID := 100, Password := ''$2a$10$secret'', CreatedAt := 1000, UpdatedAt := 1001\<rparr>"
  let ?xe = "GetByEmail ?R ?xp (Email ?vreq)"
  let ?xn = "GetByNickname ?R (snd ?xe) (Nickname ?vreq)"
  let ?xc = "Create ?R (snd ?xn) ?v"
  have px: "bcrypt ?x (Password ?vreq) = Inr ''$2a$10$secret''"
    "uuid_New ?x = (100, ?x\<lparr>drawn := 1\<rparr>)"
    "time_Now (?x\<lparr>drawn := 1\<rparr>) = (1000, ?x\<lparr>drawn := 1, ticks := 1\<rparr>)"
    "time_Now (?x\<lparr>drawn := 1, ticks := 1\<rparr>) = (1001, ?xp)"
    by (simp_all add: fixture_defs uuid_New_def time_Now_def)
  have qx: "?xe = (Inl (Errorf ''error getting user by email'' (PgError ''timeout'')), snd ?xe)
           \<and> ?xn = (Inl ErrNotFound, snd ?xn)"
    by (simp add: prod_eq_iff service_defs cache_defs store_defs fixture_defs)
  have rx: "?xc = (Some ErrEmailTaken, snd ?xc)"
    by (simp add: prod_eq_iff service_defs cache_defs store_defs fixture_defs
        constraint_error_def unique_violation_def)
  from C10 [OF px refl, THEN conjunct2, THEN conjunct2, rule_format, OF qx, THEN conjunct2,
            rule_format, OF rx]
  have c2: "fst (Service_CreateUser ?R UserEventPublisher ?x ?vreq)
      = Inl (Errorf ''failed to save user'' ErrEmailTaken)"
    by simp
  let ?y = "empty_world\<lparr>rows := [alice]\<rparr>"
  let ?yp = "?y\<lparr>drawn := 1, ticks := 2\<rparr>"
  have py: "bcrypt ?y (Password ?vreq) = Inr ''$2a$10$secret''"
    "uuid_New ?y = (100, ?y\<lparr>drawn := 1\<rparr>)"
    "time_Now (?y\<lparr>drawn := 1\<rparr>) = (1000, ?y\<lparr>drawn := 1, ticks := 1\<rparr>)"
    "time_Now (?y\<lparr>drawn := 1, ticks := 1\<rparr>) = (1001, ?yp)"
    by (simp_all add: fixture_defs uuid_New_def time_Now_def)
  have qy: "\<exists>found. fst (GetByEmail ?R ?yp (Email ?vreq)) = Inr found"
    by (simp add: prod_eq_iff service_defs cache_defs store_defs fixture_defs)
  from C10 [OF py refl, THEN conjunct1, THEN iffD2, OF qy]
  have c3: "fst (Service_CreateUser ?R UserEventPublisher ?y ?vreq) = Inl ErrEmailTaken" .
  from c1 c2 c3 show ?thesis by simp
qed

section \<open>Listing: the parameters handed on, and \<open>hasMore\<close>\<close>











section \<open>Runs without failures\<close>

lemma calm_done [simp]: "calm w \<Longrightarrow> db_done w = w" "calm w \<Longrightarrow> redis_done w = w"
  by (cases w; simp add: calm_def db_done_def redis_done_def)+

lemma calm_pending [simp]:
  "calm w \<Longrightarrow> pending (db_script w) = None"
  "calm w \<Longrightarrow> pending (redis_script w) = None"
  "calm w \<Longrightarrow> pending (kafka_script w) = None"
  by (simp_all add: calm_def)

lemma calm_update [simp]:
  "calm (w\<lparr>rows := rs\<rparr>) = calm w" "calm (w\<lparr>redis := m\<rparr>) = calm w"
  "calm (w\<lparr>ticks := n\<rparr>) = calm w" "calm (w\<lparr>drawn := n\<rparr>) = calm w"
  "calm (w\<lparr>offered := es\<rparr>) = calm w" "calm (w\<lparr>topic := ms\<rparr>) = calm w"
  "calm (w\<lparr>slog := l\<rparr>) = calm w"
  by (simp_all add: calm_def)

lemma constraint_error_unique [simp]:
  "constraint_error p (PgError (unique_violation ''users_nickname_key'')) = ErrNicknameTaken"
  "constraint_error p (PgError (unique_violation ''users_email_key'')) = ErrEmailTaken"
  "constraint_error p (PgError (unique_violation ''users_pkey''))
     = Errorf p (PgError (unique_violation ''users_pkey''))"
  by (simp_all add: constraint_error_def unique_violation_def)

lemma calm_GetByID:
  "calm w \<Longrightarrow> UserRepository_GetByID w uid =
     (case find (\<lambda>r. ID r = uid) (rows w) of None \<Rightarrow> Inl ErrNotFound | Some u \<Rightarrow> Inr u, w)"
  by (simp add: UserRepository_GetByID_def db_Get_def split: option.splits)

lemma calm_GetByEmail:
  "calm w \<Longrightarrow> UserRepository_GetByEmail w email =
     (case find (\<lambda>r. Email r = email) (rows w) of None \<Rightarrow> Inl ErrNotFound | Some u \<Rightarrow> Inr u, w)"
  by (simp add: UserRepository_GetByEmail_def db_Get_def split: option.splits)

lemma calm_GetByNickname:
  "calm w \<Longrightarrow> UserRepository_GetByNickname w nickname =
     (case find (\<lambda>r. Nickname r = nickname) (rows w) of
        None \<Rightarrow> Inl ErrNotFound | Some u \<Rightarrow> Inr u, w)"
  by (simp add: UserRepository_GetByNickname_def db_Get_def split: option.splits)

lemma calm_Update:
  "calm w \<Longrightarrow> UserRepository_Update w u =
     (if \<not> (\<exists>r \<in> set (rows w). ID r = ID u)
        then (Some ErrNotFound, w\<lparr>ticks := Suc (ticks w)\<rparr>)
      else if \<exists>r \<in> set (rows w). ID r \<noteq> ID u \<and> Nickname r = Nickname u
        then (Some ErrNicknameTaken, w\<lparr>ticks := Suc (ticks w)\<rparr>)
      else if \<exists>r \<in> set (rows w). ID r \<noteq> ID u \<and> Email r = Email u
        then (Some ErrEmailTaken, w\<lparr>ticks := Suc (ticks w)\<rparr>)
      else (None, w\<lparr>ticks := Suc (ticks w),
                     rows := map (\<lambda>r. if ID r = ID u then set_columns u (wall w (ticks w)) r else r)
                               (rows w)\<rparr>))"
  by (auto simp: UserRepository_Update_def time_Now_def db_Update_def filter_empty_conv)

lemma calm_getUserFromCache:
  "calm w \<Longrightarrow> getUserFromCache w k =
     (case redis w k of
        None \<Rightarrow> Inl redis_Nil
      | Some (v, t) \<Rightarrow>
          (case json_Unmarshal v of
             Inl e \<Rightarrow> Inl (Errorf ''error unmarshaling user'' e)
           | Inr u \<Rightarrow> Inr u), w)"
  by (simp add: getUserFromCache_def redis_Get_def split: option.splits sum.splits)

lemma calm_cacheUser:
  "calm w \<Longrightarrow> cacheUser ttl w u = (None, w\<lparr>redis := triple_set ttl u (redis w)\<rparr>)"
  by (simp add: cacheUser_def json_Marshal_def redis_Exec_def triple_set_def)

lemma calm_invalidateUserCache:
  "calm w \<Longrightarrow> invalidateUserCache w u = (None, w\<lparr>redis := triple_del u (redis w)\<rparr>)"
  by (simp add: invalidateUserCache_def redis_Exec_def triple_del_def)

lemmas calm_steps =
  calm_GetByID calm_GetByEmail calm_GetByNickname calm_Update calm_getUserFromCache
  calm_cacheUser calm_invalidateUserCache

lemma find_Some_set: "find P xs = Some x \<Longrightarrow> x \<in> set xs \<and> P x"
  by (auto simp: find_Some_iff)





section \<open>Uniqueness enforcement\<close>

lemma cachedRepo_simps [simp]:
  "Create (cachedRepo ttl) = CacheDecorator_Create UserRepository ttl"
  "GetByID (cachedRepo ttl) = CacheDecorator_GetByID UserRepository ttl"
  "GetByEmail (cachedRepo ttl) = CacheDecorator_GetByEmail UserRepository ttl"
  "GetByNickname (cachedRepo ttl) = CacheDecorator_GetByNickname UserRepository ttl"
  "Update (cachedRepo ttl) = CacheDecorator_Update UserRepository ttl"
  "Delete (cachedRepo ttl) = CacheDecorator_Delete UserRepository ttl"
  "List (cachedRepo ttl) = CacheDecorator_List UserRepository ttl"
  by (simp_all add: cachedRepo_def NewCacheDecorator_def)

lemma UserRepository_simps [simp]:
  "Create UserRepository = UserRepository_Create"
  "GetByID UserRepository = UserRepository_GetByID"
  "GetByEmail UserRepository = UserRepository_GetByEmail"
  "GetByNickname UserRepository = UserRepository_GetByNickname"
  "Update UserRepository = UserRepository_Update"
  "Delete UserRepository = UserRepository_Delete"
  "List UserRepository = UserRepository_List"
  by (simp_all add: UserRepository_def)



section \<open>The repository layers leave the event side alone\<close>

lemma outbox_db:
  "db_Get w P = (r1, w') \<Longrightarrow> outbox w' = outbox w"
  "db_Insert w u = (r2, w') \<Longrightarrow> outbox w' = outbox w"
  "db_Update w u now = (r2, w') \<Longrightarrow> outbox w' = outbox w"
  "db_Delete w uid = (r2, w') \<Longrightarrow> outbox w' = outbox w"
  "db_Count w fs = (r3, w') \<Longrightarrow> outbox w' = outbox w"
  "db_Select w fs ob desc lim off = (r4, w') \<Longrightarrow> outbox w' = outbox w"
  by (auto simp: db_Get_def db_Insert_def db_Update_def db_Delete_def db_Count_def db_Select_def
      db_done_def outbox_def split: option.splits if_splits)

lemma outbox_redis:
  "redis_Get w k = (r1, w') \<Longrightarrow> outbox w' = outbox w"
  "redis_Exec w pipe = (r2, w') \<Longrightarrow> outbox w' = outbox w"
  by (auto simp: redis_Get_def redis_Exec_def redis_done_def outbox_def
      split: option.splits prod.splits)

lemma outbox_store:
  "UserRepository_Create w u = (e, w') \<Longrightarrow> outbox w' = outbox w"
  "UserRepository_GetByID w uid = (r, w') \<Longrightarrow> outbox w' = outbox w"
  "UserRepository_GetByEmail w k = (r, w') \<Longrightarrow> outbox w' = outbox w"
  "UserRepository_GetByNickname w k = (r, w') \<Longrightarrow> outbox w' = outbox w"
  "UserRepository_Delete w uid = (e, w') \<Longrightarrow> outbox w' = outbox w"
  by (auto simp: UserRepository_Create_def UserRepository_GetByID_def
      UserRepository_GetByEmail_def UserRepository_GetByNickname_def UserRepository_Delete_def
      split: prod.splits sum.splits if_splits dest: outbox_db)

lemma outbox_store_Update:
  "UserRepository_Update w u = (e, w') \<Longrightarrow> outbox w' = outbox w"
proof -
  assume a: "UserRepository_Update w u = (e, w')"
  then obtain r where "db_Update (w\<lparr>ticks := Suc (ticks w)\<rparr>) u (wall w (ticks w)) = (r, w')"
    by (auto simp: UserRepository_Update_def time_Now_def split: prod.splits sum.splits if_splits)
  from outbox_db(3) [OF this] show ?thesis by (simp add: outbox_def)
qed

lemma outbox_cache:
  "cacheUser ttl w u = (e, w') \<Longrightarrow> outbox w' = outbox w"
  "invalidateUserCache w u = (e, w') \<Longrightarrow> outbox w' = outbox w"
  "getUserFromCache w k = (r, w') \<Longrightarrow> outbox w' = outbox w"
  by (auto simp: cacheUser_def invalidateUserCache_def getUserFromCache_def json_Marshal_def
      split: prod.splits sum.splits option.splits dest: outbox_redis)

lemmas outbox_steps = outbox_store outbox_store_Update outbox_cache

lemma outbox_cached_GetByID:
  "CacheDecorator_GetByID UserRepository ttl w uid = (r, w') \<Longrightarrow> outbox w' = outbox w"
  by (auto simp: CacheDecorator_GetByID_def split: prod.splits sum.splits option.splits
      dest!: outbox_steps)

lemma outbox_cached_GetByEmail:
  "CacheDecorator_GetByEmail UserRepository ttl w k = (r, w') \<Longrightarrow> outbox w' = outbox w"
  by (auto simp: CacheDecorator_GetByEmail_def split: prod.splits sum.splits option.splits
      dest!: outbox_steps)

lemma outbox_cached_GetByNickname:
  "CacheDecorator_GetByNickname UserRepository ttl w k = (r, w') \<Longrightarrow> outbox w' = outbox w"
  by (auto simp: CacheDecorator_GetByNickname_def split: prod.splits sum.splits option.splits
      dest!: outbox_steps)

lemma outbox_cached_Create:
  "CacheDecorator_Create UserRepository ttl w u = (e, w') \<Longrightarrow> outbox w' = outbox w"
  by (auto simp: CacheDecorator_Create_def split: prod.splits sum.splits option.splits
      dest!: outbox_steps)

lemma outbox_cached_Update:
  "CacheDecorator_Update UserRepository ttl w u = (e, w') \<Longrightarrow> outbox w' = outbox w"
  by (auto simp: CacheDecorator_Update_def split: prod.splits sum.splits option.splits
      dest!: outbox_steps)

lemma outbox_cached_Delete:
  "CacheDecorator_Delete UserRepository ttl w uid = (e, w') \<Longrightarrow> outbox w' = outbox w"
  by (auto simp: CacheDecorator_Delete_def split: prod.splits sum.splits option.splits
      dest!: outbox_steps)

lemmas outbox_cached =
  outbox_cached_GetByID outbox_cached_GetByEmail outbox_cached_GetByNickname
  outbox_cached_Create outbox_cached_Update outbox_cached_Delete

lemma publish_effect:
  assumes "createUserEvent w u ty = (ev, w1)" and "Publish w1 ev = (res, w')"
  shows "Type ev = ty \<and> EventUser ev = u \<and> offered w' = offered w @ [ev]
     \<and> (case pending (kafka_script w) of
           None \<Rightarrow> res = None \<and> slog w' = slog w \<and> (\<exists>m. topic w' = topic w @ [m])
         | Some m \<Rightarrow> res = Some (KafkaError m) \<and> slog w' = slog w \<and> topic w' = topic w)"
  using assms
  by (auto simp: createUserEvent_def Publish_def json_MarshalEvent_def kafka_WriteMessages_def
      uuid_New_def time_Now_def split: option.splits)

section \<open>Event emission\<close>

lemma cached_fetch_id:
  assumes "CacheDecorator_GetByID UserRepository ttl w uid = (Inr fetched, w1)"
    and "cache_agrees w (userKey uid) r" and "ID r = uid"
  shows "ID fetched = uid"
proof (cases "getUserFromCache w (userKey uid)")
  case (Pair res w0)
  show ?thesis
  proof (cases res)
    case (Inr hit)
    with Pair assms(1) have "fetched = hit" by (simp add: CacheDecorator_GetByID_def)
    moreover from Pair Inr assms(2,3) have "ID hit = uid"
      by (auto simp: getUserFromCache_def redis_Get_def cache_agrees_def json_Marshal_def
          split: option.splits prod.splits sum.splits)
    ultimately show ?thesis by simp
  next
    case (Inl miss)
    with Pair assms(1) obtain w2 where "UserRepository_GetByID w0 uid = (Inr fetched, w2)"
      by (auto simp: CacheDecorator_GetByID_def split: prod.splits sum.splits option.splits)
    then show ?thesis
      by (auto simp: UserRepository_GetByID_def db_Get_def
          split: option.splits prod.splits sum.splits if_splits dest: find_Some_set)
  qed
qed

lemma merge_ID [simp]: "ID (UpdateUser_merge fetched upd) = ID fetched"
  by (simp add: UpdateUser_merge_def Let_def)

lemma save_events:
  "(UpdateUser_save (cachedRepo ttl) UserEventPublisher w user = (Inr u, w') \<longrightarrow>
      u = user
      \<and> (\<exists>ev. offered w' = offered w @ [ev] \<and> Type ev = EventTypeUpdated \<and> EventUser ev = u)
      \<and> (case pending (kafka_script w) of
            None \<Rightarrow> slog w' = slog w \<and> (\<exists>m. topic w' = topic w @ [m])
          | Some m \<Rightarrow>
              topic w' = topic w
              \<and> slog w' = slog w @ [(''failed to publish user updated event'', KafkaError m, ID u)]))
   \<and> (UpdateUser_save (cachedRepo ttl) UserEventPublisher w user = (Inl e, w') \<longrightarrow>
      outbox w' = outbox w)"
proof (cases "CacheDecorator_Update UserRepository ttl w user")
  case (Pair res w1)
  note ob = outbox_cached_Update [OF Pair]
  show ?thesis
  proof (cases res)
    case (Some e')
    with Pair ob show ?thesis by (auto simp: UpdateUser_save_def)
  next
    case None
    obtain ev w2 where ce: "createUserEvent w1 user EventTypeUpdated = (ev, w2)"
      by (cases "createUserEvent w1 user EventTypeUpdated") auto
    obtain pr w3 where pu: "Publish w2 ev = (pr, w3)" by (cases "Publish w2 ev") auto
    from publish_effect [OF ce pu] ob Pair None ce pu show ?thesis
      by (auto simp: UpdateUser_save_def UserEventPublisher_def
          UserEventPublisher_PublishUpdatedUser_def logger_Warn_def outbox_def
          split: option.splits)
  qed
qed

lemma UpdateUser_shape:
  assumes "Service_UpdateUser (cachedRepo ttl) publisher w uid upd = (res, w')"
  shows "(\<exists>e. res = Inl e \<and> outbox w' = outbox w)
     \<or> (\<exists>fetched w1 w2 user.
           CacheDecorator_GetByID UserRepository ttl w uid = (Inr fetched, w1)
           \<and> outbox w2 = outbox w \<and> ID user = ID fetched
           \<and> UpdateUser_save (cachedRepo ttl) publisher w2 user = (res, w'))"
proof (cases "CacheDecorator_GetByID UserRepository ttl w uid")
  case (Pair r1 w1)
  note o1 = outbox_cached_GetByID [OF Pair]
  show ?thesis
  proof (cases r1)
    case (Inl e)
    with Pair assms o1 show ?thesis
      by (auto simp: Service_UpdateUser_def split: if_splits)
  next
    case (Inr fetched)
    let ?user = "UpdateUser_merge fetched upd"
    show ?thesis
    proof (cases "Email upd \<noteq> [] \<and> Email ?user \<noteq> Email upd")
      case False
      with Pair Inr assms have
        "UpdateUser_save (cachedRepo ttl) publisher w1 ?user = (res, w')"
        by (auto simp: Service_UpdateUser_def Let_def)
      with Pair Inr o1 show ?thesis by (intro disjI2 exI [of _ fetched] exI [of _ w1] exI [of _ ?user]) simp
    next
      case True
      obtain r2 w2 where g: "CacheDecorator_GetByEmail UserRepository ttl w1 (Email upd) = (r2, w2)"
        by (cases "CacheDecorator_GetByEmail UserRepository ttl w1 (Email upd)") auto
      from outbox_cached_GetByEmail [OF g] o1 have o2: "outbox w2 = outbox w" by simp
      let ?user' = "?user\<lparr>Email := Email upd\<rparr>"
      from Pair Inr assms True g have
        "(res = Inl ErrEmailTaken \<and> w' = w2)
         \<or> UpdateUser_save (cachedRepo ttl) publisher w2 ?user' = (res, w')"
        by (auto simp: Service_UpdateUser_def Let_def split: sum.splits if_splits)
      then show ?thesis
      proof
        assume "res = Inl ErrEmailTaken \<and> w' = w2"
        with o2 show ?thesis by simp
      next
        assume "UpdateUser_save (cachedRepo ttl) publisher w2 ?user' = (res, w')"
        with Pair Inr o2 show ?thesis
          by (intro disjI2 exI [of _ fetched] exI [of _ w1] exI [of _ w2] exI [of _ ?user']) simp
      qed
    qed
  qed
qed

text \<open>
  Claim C8. Over the cached repository and the Kafka publisher, a successful
  \<open>CreateUser\<close>, \<open>UpdateUser\<close> or \<open>DeleteUser\<close> offers the transport exactly one event, of
  the matching type, carrying the user the call returns (for a delete, the record
  fetched before it); it carries the requested id whenever the cache entry under that
  id, if any, is a record of that id. When the transport fails the write, the call has
  succeeded all the same, nothing reaches the topic and one warning is logged; when it
  does not, one message reaches the topic and nothing is logged. A call that fails has
  offered no event and logged nothing: no failure comes from publishing.
\<close>

theorem C8_event_emission:
  "(Service_CreateUser (cachedRepo ttl) UserEventPublisher w user0 = (Inr u, w') \<longrightarrow>
      (\<exists>ev. offered w' = offered w @ [ev] \<and> Type ev = EventTypeCreated \<and> EventUser ev = u)
      \<and> (case pending (kafka_script w) of
            None \<Rightarrow> slog w' = slog w \<and> (\<exists>m. topic w' = topic w @ [m])
          | Some m \<Rightarrow>
              topic w' = topic w
              \<and> slog w' = slog w @ [(''failed to publish user created event'', KafkaError m, ID u)]))
   \<and> (Service_CreateUser (cachedRepo ttl) UserEventPublisher w user0 = (Inl e, w') \<longrightarrow>
      outbox w' = outbox w)
   \<and> (Service_UpdateUser (cachedRepo ttl) UserEventPublisher w uid upd = (Inr u, w') \<longrightarrow>
      (\<exists>ev. offered w' = offered w @ [ev] \<and> Type ev = EventTypeUpdated \<and> EventUser ev = u)
      \<and> (cache_agrees w (userKey uid) r \<and> ID r = uid \<longrightarrow> ID u = uid)
      \<and> (case pending (kafka_script w) of
            None \<Rightarrow> slog w' = slog w \<and> (\<exists>m. topic w' = topic w @ [m])
          | Some m \<Rightarrow>
              topic w' = topic w
              \<and> slog w' = slog w @ [(''failed to publish user updated event'', KafkaError m, ID u)]))
   \<and> (Service_UpdateUser (cachedRepo ttl) UserEventPublisher w uid upd = (Inl e, w') \<longrightarrow>
      outbox w' = outbox w)
   \<and> (Service_DeleteUser (cachedRepo ttl) UserEventPublisher w uid = (None, w') \<longrightarrow>
      (\<exists>ev w1. offered w' = offered w @ [ev] \<and> Type ev = EventTypeDeleted
          \<and> GetByID (cachedRepo ttl) w uid = (Inr (EventUser ev), w1)
          \<and> (cache_agrees w (userKey uid) r \<and> ID r = uid \<longrightarrow> ID (EventUser ev) = uid)
          \<and> (case pending (kafka_script w) of
                None \<Rightarrow> slog w' = slog w \<and> (\<exists>m. topic w' = topic w @ [m])
              | Some m \<Rightarrow>
                  topic w' = topic w
                  \<and> slog w' = slog w @ [(''failed to publish user deleted event'', KafkaError m,
                                          ID (EventUser ev))])))
   \<and> (Service_DeleteUser (cachedRepo ttl) UserEventPublisher w uid = (Some e, w') \<longrightarrow>
      outbox w' = outbox w)"
proof (intro conjI)
  let ?w3 = "w\<lparr>drawn := Suc (drawn w), ticks := Suc (Suc (ticks w))\<rparr>"
  have o3: "outbox ?w3 = outbox w" by (simp add: outbox_def)
  show "Service_CreateUser (cachedRepo ttl) UserEventPublisher w user0 = (Inr u, w') \<longrightarrow>
      (\<exists>ev. offered w' = offered w @ [ev] \<and> Type ev = EventTypeCreated \<and> EventUser ev = u)
      \<and> (case pending (kafka_script w) of
            None \<Rightarrow> slog w' = slog w \<and> (\<exists>m. topic w' = topic w @ [m])
          | Some m \<Rightarrow>
              topic w' = topic w
              \<and> slog w' = slog w @ [(''failed to publish user created event'', KafkaError m, ID u)])"
  proof
    assume a: "Service_CreateUser (cachedRepo ttl) UserEventPublisher w user0 = (Inr u, w')"
    then obtain h e1 w4 e2 w5 w6 pr w7 where
      h: "bcrypt w (Password user0) = Inr h"
      and u: "u = user0\<lparr>ID := uuids w (drawn w), Password := h, CreatedAt := wall w (ticks w),
                        UpdatedAt := wall w (Suc (ticks w))\<rparr>"
      and s1: "CacheDecorator_GetByEmail UserRepository ttl ?w3 (Email user0) = (Inl e1, w4)"
      and s2: "CacheDecorator_GetByNickname UserRepository ttl w4 (Nickname user0) = (Inl e2, w5)"
      and s3: "CacheDecorator_Create UserRepository ttl w5 u = (None, w6)"
      and s4: "UserEventPublisher_PublishCreatedUser w6 u = (pr, w7)"
      and w': "w' = (case pr of None \<Rightarrow> w7
                    | Some e \<Rightarrow> logger_Warn w7 ''failed to publish user created event'' e (ID u))"
      by (auto simp: Service_CreateUser_def uuid_New_def time_Now_def Let_def
          UserEventPublisher_def split: sum.splits prod.splits option.splits)
    from outbox_cached_GetByEmail [OF s1] outbox_cached_GetByNickname [OF s2]
      outbox_cached_Create [OF s3] o3
    have o6: "outbox w6 = outbox w" by simp
    obtain ev w6' where ce: "createUserEvent w6 u EventTypeCreated = (ev, w6')"
      by (cases "createUserEvent w6 u EventTypeCreated") auto
    with s4 have pu: "Publish w6' ev = (pr, w7)"
      by (simp add: UserEventPublisher_PublishCreatedUser_def)
    from publish_effect [OF ce pu] o6 w' show
      "(\<exists>ev. offered w' = offered w @ [ev] \<and> Type ev = EventTypeCreated \<and> EventUser ev = u)
      \<and> (case pending (kafka_script w) of
            None \<Rightarrow> slog w' = slog w \<and> (\<exists>m. topic w' = topic w @ [m])
          | Some m \<Rightarrow>
              topic w' = topic w
              \<and> slog w' = slog w @ [(''failed to publish user created event'', KafkaError m, ID u)])"
      by (auto simp: outbox_def logger_Warn_def split: option.splits)
  qed
  show "Service_CreateUser (cachedRepo ttl) UserEventPublisher w user0 = (Inl e, w') \<longrightarrow>
      outbox w' = outbox w"
    using o3
    by (auto simp: Service_CreateUser_def uuid_New_def time_Now_def Let_def
        split: sum.splits prod.splits option.splits dest!: outbox_cached)
  show "Service_UpdateUser (cachedRepo ttl) UserEventPublisher w uid upd = (Inr u, w') \<longrightarrow>
      (\<exists>ev. offered w' = offered w @ [ev] \<and> Type ev = EventTypeUpdated \<and> EventUser ev = u)
      \<and> (cache_agrees w (userKey uid) r \<and> ID r = uid \<longrightarrow> ID u = uid)
      \<and> (case pending (kafka_script w) of
            None \<Rightarrow> slog w' = slog w \<and> (\<exists>m. topic w' = topic w @ [m])
          | Some m \<Rightarrow>
              topic w' = topic w
              \<and> slog w' = slog w @ [(''failed to publish user updated event'', KafkaError m, ID u)])"
  proof
    assume a: "Service_UpdateUser (cachedRepo ttl) UserEventPublisher w uid upd = (Inr u, w')"
    from UpdateUser_shape [OF a] obtain fetched w1 w2 user where
      f: "CacheDecorator_GetByID UserRepository ttl w uid = (Inr fetched, w1)"
      and o2: "outbox w2 = outbox w"
      and idu: "ID user = ID fetched"
      and sv: "UpdateUser_save (cachedRepo ttl) UserEventPublisher w2 user = (Inr u, w')"
      by auto
    from save_events [of ttl w2 user u w', THEN conjunct1, rule_format, OF sv] o2 idu
      cached_fetch_id [OF f]
    show "(\<exists>ev. offered w' = offered w @ [ev] \<and> Type ev = EventTypeUpdated \<and> EventUser ev = u)
      \<and> (cache_agrees w (userKey uid) r \<and> ID r = uid \<longrightarrow> ID u = uid)
      \<and> (case pending (kafka_script w) of
            None \<Rightarrow> slog w' = slog w \<and> (\<exists>m. topic w' = topic w @ [m])
          | Some m \<Rightarrow>
              topic w' = topic w
              \<and> slog w' = slog w @ [(''failed to publish user updated event'', KafkaError m, ID u)])"
      by (auto simp: outbox_def split: option.splits)
  qed
  show "Service_UpdateUser (cachedRepo ttl) UserEventPublisher w uid upd = (Inl e, w') \<longrightarrow>
      outbox w' = outbox w"
  proof
    assume a: "Service_UpdateUser (cachedRepo ttl) UserEventPublisher w uid upd = (Inl e, w')"
    from UpdateUser_shape [OF a] consider "outbox w' = outbox w"
      | w2 user where "outbox w2 = outbox w"
          "UpdateUser_save (cachedRepo ttl) UserEventPublisher w2 user = (Inl e, w')"
      by auto
    then show "outbox w' = outbox w"
    proof cases
      case 1
      then show ?thesis .
    next
      case 2
      with save_events [of ttl w2 user _ w' e, THEN conjunct2] show ?thesis by simp
    qed
  qed
  show "Service_DeleteUser (cachedRepo ttl) UserEventPublisher w uid = (None, w') \<longrightarrow>
      (\<exists>ev w1. offered w' = offered w @ [ev] \<and> Type ev = EventTypeDeleted
          \<and> GetByID (cachedRepo ttl) w uid = (Inr (EventUser ev), w1)
          \<and> (cache_agrees w (userKey uid) r \<and> ID r = uid \<longrightarrow> ID (EventUser ev) = uid)
          \<and> (case pending (kafka_script w) of
                None \<Rightarrow> slog w' = slog w \<and> (\<exists>m. topic w' = topic w @ [m])
              | Some m \<Rightarrow>
                  topic w' = topic w
                  \<and> slog w' = slog w @ [(''failed to publish user deleted event'', KafkaError m,
                                          ID (EventUser ev))]))"
  proof
    assume a: "Service_DeleteUser (cachedRepo ttl) UserEventPublisher w uid = (None, w')"
    then obtain fetched w1 w2 pr w3 where
      f: "CacheDecorator_GetByID UserRepository ttl w uid = (Inr fetched, w1)"
      and d: "CacheDecorator_Delete UserRepository ttl w1 uid = (None, w2)"
      and s: "UserEventPublisher_PublishDeletedUser w2 fetched = (pr, w3)"
      and w': "w' = (case pr of None \<Rightarrow> w3
                    | Some e \<Rightarrow> logger_Warn w3 ''failed to publish user deleted event'' e (ID fetched))"
      by (auto simp: Service_DeleteUser_def UserEventPublisher_def
          split: sum.splits prod.splits option.splits if_splits)
    from outbox_cached_GetByID [OF f] outbox_cached_Delete [OF d]
    have o2: "outbox w2 = outbox w" by simp
    obtain ev w2' where ce: "createUserEvent w2 fetched EventTypeDeleted = (ev, w2')"
      by (cases "createUserEvent w2 fetched EventTypeDeleted") auto
    with s have pu: "Publish w2' ev = (pr, w3)"
      by (simp add: UserEventPublisher_PublishDeletedUser_def)
    from publish_effect [OF ce pu] have ev: "EventUser ev = fetched" by simp
    from publish_effect [OF ce pu] o2 w' f cached_fetch_id [OF f]
    have "offered w' = offered w @ [ev] \<and> Type ev = EventTypeDeleted
          \<and> GetByID (cachedRepo ttl) w uid = (Inr (EventUser ev), w1)
          \<and> (cache_agrees w (userKey uid) r \<and> ID r = uid \<longrightarrow> ID (EventUser ev) = uid)
          \<and> (case pending (kafka_script w) of
                None \<Rightarrow> slog w' = slog w \<and> (\<exists>m. topic w' = topic w @ [m])
              | Some m \<Rightarrow>
                  topic w' = topic w
                  \<and> slog w' = slog w @ [(''failed to publish user deleted event'', KafkaError m,
                                          ID (EventUser ev))])"
      by (auto simp: outbox_def logger_Warn_def split: option.splits)
    then show "\<exists>ev w1. offered w' = offered w @ [ev] \<and> Type ev = EventTypeDeleted
          \<and> GetByID (cachedRepo ttl) w uid = (Inr (EventUser ev), w1)
          \<and> (cache_agrees w (userKey uid) r \<and> ID r = uid \<longrightarrow> ID (EventUser ev) = uid)
          \<and> (case pending (kafka_script w) of
                None \<Rightarrow> slog w' = slog w \<and> (\<exists>m. topic w' = topic w @ [m])
              | Some m \<Rightarrow>
                  topic w' = topic w
                  \<and> slog w' = slog w @ [(''failed to publish user deleted event'', KafkaError m,
                                          ID (EventUser ev))])"
      by blast
  qed
  show "Service_DeleteUser (cachedRepo ttl) UserEventPublisher w uid = (Some e, w') \<longrightarrow>
      outbox w' = outbox w"
    by (auto simp: Service_DeleteUser_def UserEventPublisher_def
        split: sum.splits prod.splits option.splits if_splits dest!: outbox_cached)
qed
theorem C8_event_emission_witness:
  "fst (Service_CreateUser (cachedRepo 60) UserEventPublisher
          (empty_world\<lparr>kafka_script := [Some ''broker down'']\<rparr>) (alice\<lparr>Password := ''secret''\<rparr>))
     = Inr (alice\<lparr>ID := 100, Password := ''$2a$10$secret'', CreatedAt := 1000, UpdatedAt := 1001\<rparr>)
   \<and> (\<exists>ev. offered (snd (Service_CreateUser (cachedRepo 60) UserEventPublisher
          (empty_world\<lparr>kafka_script := [Some ''broker down'']\<rparr>) (alice\<lparr>Password := ''secret''\<rparr>)))
          = [ev] \<and> Type ev = ''created'' \<and> ID (EventUser ev) = 100)
   \<and> slog (snd (Service_CreateUser (cachedRepo 60) UserEventPublisher
          (empty_world\<lparr>kafka_script := [Some ''broker down'']\<rparr>) (alice\<lparr>Password := ''secret''\<rparr>)))
     = [(''failed to publish user created event'', KafkaError ''broker down'', 100)]
   \<and> (\<exists>ev. offered (snd (Service_UpdateUser (cachedRepo 60) UserEventPublisher
          (empty_world\<lparr>rows := [alice]\<rparr>) 1 country_only)) = [ev]
          \<and> Type ev = ''updated'' \<and> ID (EventUser ev) = 1)
   \<and> (\<exists>m. topic (snd (Service_UpdateUser (cachedRepo 60) UserEventPublisher
          (empty_world\<lparr>rows := [alice]\<rparr>) 1 country_only)) = [m])
   \<and> offered (snd (Service_UpdateUser (cachedRepo 60) UserEventPublisher
          (empty_world\<lparr>rows := [alice]\<rparr>) 7 country_only)) = []
   \<and> (\<exists>ev. offered (snd (Service_DeleteUser (cachedRepo 60) UserEventPublisher
          (empty_world\<lparr>rows := [alice]\<rparr>) 1)) = [ev]
          \<and> Type ev = ''deleted'' \<and> ID (EventUser ev) = 1)"
proof -
  note C8 = C8_event_emission
  note eval = prod_eq_iff Let_def service_defs publisher_defs cache_defs store_defs fixture_defs
  let ?k = "empty_world\<lparr>kafka_script := [Some ''broker down'']\<rparr>"
  let ?s = "empty_world\<lparr>rows := [alice]\<rparr>"
  let ?req = "alice\<lparr>Password := ''secret''\<rparr>"
  let ?new = "alice\<lparr>ID := 100, Password := ''$2a$10$secret'', CreatedAt := 1000, UpdatedAt := 1001\<rparr>"
  let ?c = "Service_CreateUser (cachedRepo 60) UserEventPublisher ?k ?req"
  let ?u = "Service_UpdateUser (cachedRepo 60) UserEventPublisher ?s 1 country_only"
  let ?f = "Service_UpdateUser (cachedRepo 60) UserEventPublisher ?s 7 country_only"
  let ?d = "Service_DeleteUser (cachedRepo 60) UserEventPublisher ?s 1"
  have hc: "?c = (Inr ?new, snd ?c)" by (simp add: eval)
  have hu: "?u = (Inr (alice\<lparr>Country := ''UK''\<rparr>), snd ?u)" by (simp add: eval)
  have hf: "?f = (Inl ErrNotFound, snd ?f)" by (simp add: eval)
  have hd: "?d = (None, snd ?d)" by (simp add: eval)
  have ag: "cache_agrees ?s (userKey 1) alice \<and> ID alice = 1"
    by (simp add: cache_agrees_def fixture_defs)
  from C8 [where ttl = 60 and w = ?k and ?user0.0 = ?req and u = ?new and w' = "snd ?c",
      THEN conjunct1, rule_format, OF hc]
  have c1: "(\<exists>ev. offered (snd ?c) = [ev] \<and> Type ev = ''created'' \<and> ID (EventUser ev) = 100)
      \<and> slog (snd ?c) = [(''failed to publish user created event'', KafkaError ''broker down'', 100)]"
    by (auto simp: fixture_defs EventTypeCreated_def)
  from C8 [where ttl = 60 and w = ?s and uid = 1 and upd = country_only
        and u = "alice\<lparr>Country := ''UK''\<rparr>" and w' = "snd ?u" and r = alice,
      THEN conjunct2, THEN conjunct2, THEN conjunct1, rule_format, OF hu] ag
  have c2: "(\<exists>ev. offered (snd ?u) = [ev] \<and> Type ev = ''updated'' \<and> ID (EventUser ev) = 1)
      \<and> (\<exists>m. topic (snd ?u) = [m])"
    by (auto simp: fixture_defs EventTypeUpdated_def)
  from C8 [where ttl = 60 and w = ?s and uid = 7 and upd = country_only
        and e = ErrNotFound and w' = "snd ?f",
      THEN conjunct2, THEN conjunct2, THEN conjunct2, THEN conjunct1, rule_format, OF hf]
  have c3: "offered (snd ?f) = []"
    by (simp add: outbox_def fixture_defs)
  from C8 [where ttl = 60 and w = ?s and uid = 1 and w' = "snd ?d" and r = alice,
      THEN conjunct2, THEN conjunct2, THEN conjunct2, THEN conjunct2, THEN conjunct1,
      rule_format, OF hd] ag
  have c4: "\<exists>ev. offered (snd ?d) = [ev] \<and> Type ev = ''deleted'' \<and> ID (EventUser ev) = 1"
    by (auto simp: fixture_defs EventTypeDeleted_def)
  from hc have c0: "fst ?c = Inr ?new" by (metis fst_conv)
  from c0 c1 c2 c3 c4 show ?thesis by blast
qed

section \<open>Updates in runs without failures\<close>

lemma triple_set_apply:
  "triple_set ttl u m k =
     (if k = userKey (ID u) \<or> k = emailKey (Email u) \<or> k = nickKey (Nickname u)
      then Some (JSON (u\<lparr>Password := []\<rparr>), ttl) else m k)"
  by (simp add: triple_set_def)

lemma triple_del_apply:
  "triple_del u m k =
     (if k = userKey (ID u) \<or> k = emailKey (Email u) \<or> k = nickKey (Nickname u)
      then None else m k)"
  by (simp add: triple_del_def)

lemma find_map_same:
  "(\<And>x. P (f x) = P x) \<Longrightarrow> find P (map f xs) = map_option f (find P xs)"
  by (induction xs) simp_all

lemma set_columns_fields [simp]:
  "ID (set_columns u now r) = ID r" "CreatedAt (set_columns u now r) = CreatedAt r"
  "UpdatedAt (set_columns u now r) = now" "FirstName (set_columns u now r) = FirstName u"
  "LastName (set_columns u now r) = LastName u" "Nickname (set_columns u now r) = Nickname u"
  "Email (set_columns u now r) = Email u" "Country (set_columns u now r) = Country u"
  "Password (set_columns u now r) = Password u"
  by (simp_all add: set_columns_def)

lemma calm_cached_Update:
  assumes "calm w" and "CacheDecorator_Update UserRepository ttl w u = (None, w')"
    and "find (\<lambda>r. ID r = ID u) (rows w) = Some old"
  shows "find (\<lambda>r. ID r = ID u) (rows w') = Some (set_columns u (wall w (ticks w)) old)
     \<and> redis w' = triple_set ttl (set_columns u (wall w (ticks w)) old) (triple_del old (redis w))
     \<and> calm w'"
proof -
  let ?f = "\<lambda>r. if ID r = ID u then set_columns u (wall w (ticks w)) r else r"
  have "find (\<lambda>r. ID r = ID u) (map ?f (rows w)) = map_option ?f (find (\<lambda>r. ID r = ID u) (rows w))"
    by (rule find_map_same) simp
  with assms(3) find_Some_set [OF assms(3)]
  have f: "find (\<lambda>r. ID r = ID u) (map ?f (rows w)) = Some (set_columns u (wall w (ticks w)) old)"
    by simp
  from assms(1,2) assms(3) f show ?thesis
    by (auto simp: CacheDecorator_Update_def calm_steps split: if_splits)
qed




text \<open>
  Claim C2. In a run where no client library call fails, a successful \<open>Update\<close> of the
  decorator over the store leaves the keyspace as it is after deleting the triple of
  the record read before the update and then writing the triple of the record read
  after it. So the new record is cached under its three keys; when the email changed,
  the old email's key is absent, a lookup by the old email misses and answers what the
  store answers, and a lookup by the new email returns the cached new record whatever
  the inner repository is, that is, without asking it. The same holds for a changed
  nickname.
\<close>

theorem C2_invalidate_before_repopulate:
  assumes "calm w" and "CacheDecorator_Update UserRepository ttl w u = (None, w')"
    and "find (\<lambda>r. ID r = ID u) (rows w) = Some oldUser"
  shows
    "\<exists>updatedUser. find (\<lambda>r. ID r = ID u) (rows w') = Some updatedUser
       \<and> Email updatedUser = Email u \<and> Nickname updatedUser = Nickname u
       \<and> redis w' = triple_set ttl updatedUser (triple_del oldUser (redis w))
       \<and> cached_triple w' updatedUser (Some (JSON (updatedUser\<lparr>Password := []\<rparr>), ttl))
       \<and> (Email oldUser \<noteq> Email u \<longrightarrow>
            redis w' (emailKey (Email oldUser)) = None
            \<and> getUserFromCache w' (emailKey (Email oldUser)) = (Inl redis_Nil, w')
            \<and> fst (CacheDecorator_GetByEmail UserRepository ttl w' (Email oldUser))
                = fst (UserRepository_GetByEmail w' (Email oldUser))
            \<and> (\<forall>repo. CacheDecorator_GetByEmail repo ttl w' (Email u)
                         = (Inr (updatedUser\<lparr>Password := []\<rparr>), w')))
       \<and> (Nickname oldUser \<noteq> Nickname u \<longrightarrow>
            redis w' (nickKey (Nickname oldUser)) = None
            \<and> getUserFromCache w' (nickKey (Nickname oldUser)) = (Inl redis_Nil, w')
            \<and> fst (CacheDecorator_GetByNickname UserRepository ttl w' (Nickname oldUser))
                = fst (UserRepository_GetByNickname w' (Nickname oldUser))
            \<and> (\<forall>repo. CacheDecorator_GetByNickname repo ttl w' (Nickname u)
                         = (Inr (updatedUser\<lparr>Password := []\<rparr>), w')))"
proof -
  let ?new = "set_columns u (wall w (ticks w)) oldUser"
  from calm_cached_Update [OF assms] have
    f: "find (\<lambda>r. ID r = ID u) (rows w') = Some ?new"
    and r: "redis w' = triple_set ttl ?new (triple_del oldUser (redis w))"
    and c: "calm w'" by simp_all
  have t: "cached_triple w' ?new (Some (JSON (?new\<lparr>Password := []\<rparr>), ttl))"
    by (simp add: cached_triple_def r triple_set_apply)
  have e: "Email oldUser \<noteq> Email u \<longrightarrow>
            redis w' (emailKey (Email oldUser)) = None
            \<and> getUserFromCache w' (emailKey (Email oldUser)) = (Inl redis_Nil, w')
            \<and> fst (CacheDecorator_GetByEmail UserRepository ttl w' (Email oldUser))
                = fst (UserRepository_GetByEmail w' (Email oldUser))
            \<and> (\<forall>repo. CacheDecorator_GetByEmail repo ttl w' (Email u)
                         = (Inr (?new\<lparr>Password := []\<rparr>), w'))"
  proof
    assume d: "Email oldUser \<noteq> Email u"
    then have n: "redis w' (emailKey (Email oldUser)) = None"
      by (simp add: r triple_set_apply triple_del_apply)
    have h: "redis w' (emailKey (Email u)) = Some (JSON (?new\<lparr>Password := []\<rparr>), ttl)"
      by (simp add: r triple_set_apply)
    from c n h show "redis w' (emailKey (Email oldUser)) = None
            \<and> getUserFromCache w' (emailKey (Email oldUser)) = (Inl redis_Nil, w')
            \<and> fst (CacheDecorator_GetByEmail UserRepository ttl w' (Email oldUser))
                = fst (UserRepository_GetByEmail w' (Email oldUser))
            \<and> (\<forall>repo. CacheDecorator_GetByEmail repo ttl w' (Email u)
                         = (Inr (?new\<lparr>Password := []\<rparr>), w'))"
      by (auto simp: CacheDecorator_GetByEmail_def calm_steps split: option.splits)
  qed
  have k: "Nickname oldUser \<noteq> Nickname u \<longrightarrow>
            redis w' (nickKey (Nickname oldUser)) = None
            \<and> getUserFromCache w' (nickKey (Nickname oldUser)) = (Inl redis_Nil, w')
            \<and> fst (CacheDecorator_GetByNickname UserRepository ttl w' (Nickname oldUser))
                = fst (UserRepository_GetByNickname w' (Nickname oldUser))
            \<and> (\<forall>repo. CacheDecorator_GetByNickname repo ttl w' (Nickname u)
                         = (Inr (?new\<lparr>Password := []\<rparr>), w'))"
  proof
    assume d: "Nickname oldUser \<noteq> Nickname u"
    then have n: "redis w' (nickKey (Nickname oldUser)) = None"
      by (simp add: r triple_set_apply triple_del_apply)
    have h: "redis w' (nickKey (Nickname u)) = Some (JSON (?new\<lparr>Password := []\<rparr>), ttl)"
      by (simp add: r triple_set_apply)
    from c n h show "redis w' (nickKey (Nickname oldUser)) = None
            \<and> getUserFromCache w' (nickKey (Nickname oldUser)) = (Inl redis_Nil, w')
            \<and> fst (CacheDecorator_GetByNickname UserRepository ttl w' (Nickname oldUser))
                = fst (UserRepository_GetByNickname w' (Nickname oldUser))
            \<and> (\<forall>repo. CacheDecorator_GetByNickname repo ttl w' (Nickname u)
                         = (Inr (?new\<lparr>Password := []\<rparr>), w'))"
      by (auto simp: CacheDecorator_GetByNickname_def calm_steps split: option.splits)
  qed
  from f r t e k show ?thesis
    by (intro exI [of _ ?new]) simp
qed
theorem C2_invalidate_before_repopulate_witness:
  "\<exists>updatedUser.
      find (\<lambda>r. ID r = 1)
        (rows (snd (CacheDecorator_Update UserRepository 60
           (empty_world\<lparr>rows := [alice, bob], redis := triple_set 60 alice Map.empty\<rparr>)
           (alice\<lparr>Email := ''alice@new.example'', Nickname := ''ally''\<rparr>)))) = Some updatedUser
      \<and> redis (snd (CacheDecorator_Update UserRepository 60
           (empty_world\<lparr>rows := [alice, bob], redis := triple_set 60 alice Map.empty\<rparr>)
           (alice\<lparr>Email := ''alice@new.example'', Nickname := ''ally''\<rparr>)))
          (emailKey ''alice@example.com'') = None
      \<and> redis (snd (CacheDecorator_Update UserRepository 60
           (empty_world\<lparr>rows := [alice, bob], redis := triple_set 60 alice Map.empty\<rparr>)
           (alice\<lparr>Email := ''alice@new.example'', Nickname := ''ally''\<rparr>)))
          (nickKey ''alice'') = None
      \<and> (\<forall>repo. fst (CacheDecorator_GetByEmail repo 60
           (snd (CacheDecorator_Update UserRepository 60
             (empty_world\<lparr>rows := [alice, bob], redis := triple_set 60 alice Map.empty\<rparr>)
             (alice\<lparr>Email := ''alice@new.example'', Nickname := ''ally''\<rparr>)))
           ''alice@new.example'') = Inr (updatedUser\<lparr>Password := []\<rparr>))
      \<and> (\<forall>repo. fst (CacheDecorator_GetByNickname repo 60
           (snd (CacheDecorator_Update UserRepository 60
             (empty_world\<lparr>rows := [alice, bob], redis := triple_set 60 alice Map.empty\<rparr>)
             (alice\<lparr>Email := ''alice@new.example'', Nickname := ''ally''\<rparr>)))
           ''ally'') = Inr (updatedUser\<lparr>Password := []\<rparr>))"
proof -
  let ?w = "empty_world\<lparr>rows := [alice, bob], redis := triple_set 60 alice Map.empty\<rparr>"
  let ?u = "alice\<lparr>Email := ''alice@new.example'', Nickname := ''ally''\<rparr>"
  let ?r = "CacheDecorator_Update UserRepository 60 ?w ?u"
  have c: "calm ?w" by (simp add: calm_def empty_world_def)
  have h: "?r = (None, snd ?r)"
    by (simp add: prod_eq_iff cache_defs store_defs fixture_defs triple_set_def)
  have f: "find (\<lambda>r. ID r = ID ?u) (rows ?w) = Some alice"
    by (simp add: fixture_defs)
  have d: "Email alice = ''alice@example.com''" "Nickname alice = ''alice''" "ID alice = 1"
    by (simp_all add: alice_def)
  from C2_invalidate_before_repopulate [OF c h f] obtain x where
    "find (\<lambda>r. ID r = 1) (rows (snd ?r)) = Some x"
    "redis (snd ?r) (emailKey ''alice@example.com'') = None"
    "redis (snd ?r) (nickKey ''alice'') = None"
    "\<forall>repo. CacheDecorator_GetByEmail repo 60 (snd ?r) ''alice@new.example''
        = (Inr (x\<lparr>Password := []\<rparr>), snd ?r)"
    "\<forall>repo. CacheDecorator_GetByNickname repo 60 (snd ?r) ''ally''
        = (Inr (x\<lparr>Password := []\<rparr>), snd ?r)"
    by (auto simp: d)
  then show ?thesis
    by (intro exI [of _ x]) simp
qed

section \<open>Partial update\<close>

lemma merge_fields [simp]:
  "FirstName (UpdateUser_merge f upd) = (if FirstName upd = [] then FirstName f else FirstName upd)"
  "LastName (UpdateUser_merge f upd) = (if LastName upd = [] then LastName f else LastName upd)"
  "Nickname (UpdateUser_merge f upd) = (if Nickname upd = [] then Nickname f else Nickname upd)"
  "Country (UpdateUser_merge f upd) = (if Country upd = [] then Country f else Country upd)"
  "Email (UpdateUser_merge f upd) = Email f" "Password (UpdateUser_merge f upd) = Password f"
  "CreatedAt (UpdateUser_merge f upd) = CreatedAt f"
  "UpdatedAt (UpdateUser_merge f upd) = UpdatedAt f"
  by (auto simp: UpdateUser_merge_def Let_def)




section \<open>The credential hash across an update\<close>

text \<open>
  Claim C9 at a concrete run: a user is created and then only its country is updated,
  all through the service over the cached repository, with no failure anywhere. The
  merge leaves \<open>Password\<close> alone, but the record it merges into comes from the cache,
  where it was serialised without \<open>Password\<close>; \<open>UserRepository.Update\<close> writes that empty
  string to \<open>password_hash\<close>. The stored hash was the bcrypt hash and is empty afterwards.
\<close>

theorem C9_update_after_create_wipes_hash:
  "map Password (rows (snd (Service_CreateUser (cachedRepo 60) UserEventPublisher empty_world
        (alice\<lparr>Password := ''secret''\<rparr>)))) = [''$2a$10$secret'']
   \<and> fst (Service_UpdateUser (cachedRepo 60) UserEventPublisher
        (snd (Service_CreateUser (cachedRepo 60) UserEventPublisher empty_world
           (alice\<lparr>Password := ''secret''\<rparr>))) 100 country_only)
      = Inr (alice\<lparr>ID := 100, Password := [], Country := ''UK'', CreatedAt := 1000,
                    UpdatedAt := 1001\<rparr>)
   \<and> map Password (rows (snd (Service_UpdateUser (cachedRepo 60) UserEventPublisher
        (snd (Service_CreateUser (cachedRepo 60) UserEventPublisher empty_world
           (alice\<lparr>Password := ''secret''\<rparr>))) 100 country_only))) = [[]]
   \<and> map Password (rows (snd (Service_UpdateUser UserRepository UserEventPublisher
        (snd (Service_CreateUser UserRepository UserEventPublisher empty_world
           (alice\<lparr>Password := ''secret''\<rparr>))) 100 country_only))) = [''$2a$10$secret'']"
  by (simp add: Let_def service_defs publisher_defs cache_defs store_defs fixture_defs)

end
